theory Spec2Isabelle
  imports Main "HOL-Library.Word"
begin

unbundle bit_operations_syntax

text \<open>
  The transfer driver of apprenticeVr, \<open>DownloadProcessor\<close> (\<open>updateItemStatus\<close>,
  \<open>cancelDownload\<close>, \<open>startDownload\<close> with its data handler and its \<open>catch\<close> block), and
  \<open>GameService.extractMetaArchive\<close>, as functions on an explicit processor state. What
  the subprocess does is an input: the chunks of output it writes and the way it ends.
\<close>

section \<open>Strings as the drivers use them\<close>

text \<open>
  A JavaScript string is modelled by the list of its UTF-8 bytes (\<open>string\<close>); for the
  ASCII text the tools print, bytes and characters are the same. \<open>startsWith\<close>,
  \<open>includes\<close>, \<open>substring(0, n)\<close>, \<open>split\<close> and \<open>join\<close> are the String methods of the
  same name.
\<close>

definition startsWith :: "string \<Rightarrow> string \<Rightarrow> bool" where
  "startsWith s pat = (take (length pat) s = pat)"

fun includesStr :: "string \<Rightarrow> string \<Rightarrow> bool" where
  "includesStr [] pat = (pat = [])"
| "includesStr (c # cs) pat = (startsWith (c # cs) pat \<or> includesStr cs pat)"

definition substring0 :: "nat \<Rightarrow> string \<Rightarrow> string" where
  "substring0 n s = take n s"

definition LF :: char where "LF = CHR 0x0A"
definition CR :: char where "CR = CHR 0x0D"

text \<open>\<open>s.split('\n')\<close>: always at least one piece.\<close>

fun splitOn :: "char \<Rightarrow> string \<Rightarrow> string \<Rightarrow> string list" where
  "splitOn d acc [] = [rev acc]"
| "splitOn d acc (c # cs) =
     (if c = d then rev acc # splitOn d [] cs else splitOn d (c # acc) cs)"

text \<open>\<open>s.split(/\r\n|\n|\r/)\<close>: a CR directly followed by LF is one separator.\<close>

fun splitLines :: "string \<Rightarrow> string \<Rightarrow> string list" where
  "splitLines acc [] = [rev acc]"
| "splitLines acc [c] =
     (if c = CR \<or> c = LF then [rev acc, []] else [rev (c # acc)])"
| "splitLines acc (c # c' # cs) =
     (if c = CR \<and> c' = LF then rev acc # splitLines [] cs
      else if c = CR \<or> c = LF then rev acc # splitLines [] (c' # cs)
      else splitLines (c # acc) (c' # cs))"

fun joinWith :: "string \<Rightarrow> string list \<Rightarrow> string" where
  "joinWith sep [] = []"
| "joinWith sep [x] = x"
| "joinWith sep (x # y # ys) = x @ sep @ joinWith sep (y # ys)"

text \<open>\<open>xs.slice(-n)\<close>: the last \<open>n\<close> elements (all of them when there are fewer).\<close>

definition sliceLast :: "nat \<Rightarrow> 'a list \<Rightarrow> 'a list" where
  "sliceLast n xs = drop (length xs - n) xs"

definition isDigit :: "char \<Rightarrow> bool" where
  "isDigit c = (c \<in> set ''0123456789'')"

text \<open>\<open>\s\<close> restricted to the ASCII white space (tab, LF, VT, FF, CR, space).\<close>

definition isSpace :: "char \<Rightarrow> bool" where
  "isSpace c = (c = CHR '' '' \<or> c = CHR 0x09 \<or> c = CHR 0x0A \<or> c = CHR 0x0B
                \<or> c = CHR 0x0C \<or> c = CHR 0x0D)"

definition digitVal :: "char \<Rightarrow> nat" where
  "digitVal c = of_char c - 48"

text \<open>\<open>parseInt(ds, 10)\<close> on a non-empty run of decimal digits, as an exact natural number.\<close>

definition parseInt :: "string \<Rightarrow> nat" where
  "parseInt ds = foldl (\<lambda>n c. 10 * n + digitVal c) 0 ds"

section \<open>The MD5 digest\<close>

text \<open>
  \<open>crypto.createHash('md5').update(s).digest()\<close> of Node: the MD5 message digest
  (RFC 1321) of the bytes of \<open>s\<close>. Words are little-endian; a message is padded with
  the byte \<open>0x80\<close>, zero bytes up to 56 modulo 64 and its length in bits as 64 bits.
\<close>

definition md5K :: "32 word list" where
  "md5K =
     [0xd76aa478, 0xe8c7b756, 0x242070db, 0xc1bdceee,
      0xf57c0faf, 0x4787c62a, 0xa8304613, 0xfd469501,
      0x698098d8, 0x8b44f7af, 0xffff5bb1, 0x895cd7be,
      0x6b901122, 0xfd987193, 0xa679438e, 0x49b40821,
      0xf61e2562, 0xc040b340, 0x265e5a51, 0xe9b6c7aa,
      0xd62f105d, 0x02441453, 0xd8a1e681, 0xe7d3fbc8,
      0x21e1cde6, 0xc33707d6, 0xf4d50d87, 0x455a14ed,
      0xa9e3e905, 0xfcefa3f8, 0x676f02d9, 0x8d2a4c8a,
      0xfffa3942, 0x8771f681, 0x6d9d6122, 0xfde5380c,
      0xa4beea44, 0x4bdecfa9, 0xf6bb4b60, 0xbebfbc70,
      0x289b7ec6, 0xeaa127fa, 0xd4ef3085, 0x04881d05,
      0xd9d4d039, 0xe6db99e5, 0x1fa27cf8, 0xc4ac5665,
      0xf4292244, 0x432aff97, 0xab9423a7, 0xfc93a039,
      0x655b59c3, 0x8f0ccc92, 0xffeff47d, 0x85845dd1,
      0x6fa87e4f, 0xfe2ce6e0, 0xa3014314, 0x4e0811a1,
      0xf7537e82, 0xbd3af235, 0x2ad7d2bb, 0xeb86d391]"

definition md5Shift :: "nat list" where
  "md5Shift = concat (map (\<lambda>row. concat (replicate 4 row))
     [[7, 12, 17, 22], [5, 9, 14, 20], [4, 11, 16, 23], [6, 10, 15, 21]])"

definition md5Mix :: "nat \<Rightarrow> 32 word \<Rightarrow> 32 word \<Rightarrow> 32 word \<Rightarrow> 32 word" where
  "md5Mix i b c d =
     (if i < 16 then (b AND c) OR (NOT b AND d)
      else if i < 32 then (d AND b) OR (NOT d AND c)
      else if i < 48 then b XOR c XOR d
      else c XOR (b OR NOT d))"

definition md5Index :: "nat \<Rightarrow> nat" where
  "md5Index i =
     (if i < 16 then i
      else if i < 32 then (5 * i + 1) mod 16
      else if i < 48 then (3 * i + 5) mod 16
      else (7 * i) mod 16)"

type_synonym md5State = "32 word \<times> 32 word \<times> 32 word \<times> 32 word"

definition md5Step :: "32 word list \<Rightarrow> md5State \<Rightarrow> nat \<Rightarrow> md5State" where
  "md5Step m s i =
     (case s of (a, b, c, d) \<Rightarrow>
        (d, b + word_rotl (md5Shift ! i) (md5Mix i b c d + a + md5K ! i + m ! md5Index i), b, c))"

text \<open>
  A word from its bytes and the first \<open>k\<close> bytes of a word, least significant byte first;
  a list cut into groups of \<open>k\<close> elements (\<open>fuel\<close> bounds the number of groups).
\<close>

definition wordLE :: "8 word list \<Rightarrow> 32 word" where
  "wordLE bs = foldr (\<lambda>b w. ucast b + push_bit 8 w) bs 0"

definition bytesLE :: "nat \<Rightarrow> 'a::len word \<Rightarrow> 8 word list" where
  "bytesLE k w = map (\<lambda>i. ucast (drop_bit (8 * i) w)) [0..<k]"

fun groups :: "nat \<Rightarrow> nat \<Rightarrow> 'a list \<Rightarrow> 'a list list" where
  "groups 0 k xs = []"
| "groups (Suc fuel) k xs = (if xs = [] then [] else take k xs # groups fuel k (drop k xs))"

definition md5Block :: "md5State \<Rightarrow> 8 word list \<Rightarrow> md5State" where
  "md5Block s block =
     (case s of (a0, b0, c0, d0) \<Rightarrow>
        (case foldl (md5Step (map wordLE (groups 16 4 block))) s [0..<64] of
           (a, b, c, d) \<Rightarrow> (a0 + a, b0 + b, c0 + c, d0 + d)))"

definition md5Pad :: "8 word list \<Rightarrow> 8 word list" where
  "md5Pad bs =
     bs @ [0x80] @ replicate ((119 - length bs mod 64) mod 64) 0
        @ bytesLE 8 (of_nat (8 * length bs) :: 64 word)"

definition md5Digest :: "string \<Rightarrow> 8 word list" where
  "md5Digest s =
     (let padded = md5Pad (map of_char s)
      in case foldl md5Block (0x67452301, 0xefcdab89, 0x98badcfe, 0x10325476)
                (groups (length padded) 64 padded) of
           (a, b, c, d) \<Rightarrow> concat (map (bytesLE 4) [a, b, c, d]))"

section \<open>Download items and the queue store\<close>

text \<open>
  Modelled from the spec: \<open>DownloadItem\<close> and \<open>DownloadStatus\<close> (\<open>./types\<close>, not part of
  the sources), with the fields of the spec's data model under the names the processor
  uses for them; \<open>pid\<close> is the attached process. \<open>progress\<close> is the number \<open>parseInt\<close>
  returns, taken as an exact natural number.
\<close>

datatype DownloadStatus =
  Queued | Downloading | Extracting | Completed | Installing | InstallError | Error | Cancelled

record DownloadItem =
  releaseName :: string
  packageName :: string
  displayName :: string
  status :: DownloadStatus
  progress :: nat
  error :: "string option"
  speed :: "string option"
  eta :: "string option"
  extractProgress :: "nat option"
  downloadPath :: "string option"
  pid :: "nat option"

text \<open>
  \<open>Partial<DownloadItem>\<close>: \<open>None\<close> is a key that is absent from the object literal; for
  an optional field \<open>Some None\<close> is a key that is present with the value \<open>undefined\<close>.
\<close>

record ItemUpdates =
  u_status :: "DownloadStatus option"
  u_progress :: "nat option"
  u_error :: "string option option"
  u_speed :: "string option option"
  u_eta :: "string option option"
  u_extractProgress :: "nat option option"
  u_downloadPath :: "string option option"
  u_pid :: "nat option option"

definition noUpdates :: ItemUpdates where
  "noUpdates = \<lparr>u_status = None, u_progress = None, u_error = None, u_speed = None,
     u_eta = None, u_extractProgress = None, u_downloadPath = None, u_pid = None\<rparr>"

definition orKeep :: "'a option \<Rightarrow> 'a \<Rightarrow> 'a" where
  "orKeep u old = (case u of None \<Rightarrow> old | Some v \<Rightarrow> v)"

text \<open>
  Modelled from the spec: \<open>QueueManager\<close> (\<open>./queueManager\<close>, imported by the download
  processor but not part of the sources). The Queue Store holds the ordered item
  collection; \<open>find(releaseName)\<close> returns the item or absent; \<open>updateItem(releaseName,
  partialFields)\<close> "applies field-level merge; returns whether any field actually changed
  value; fails silently (returns false) if item absent", and "readers never observe a
  partially-updated item": an update puts a new item value in the place of the old one,
  so an item obtained from \<open>findItem\<close> before an update is the value before the update.
\<close>

definition mergeItem :: "DownloadItem \<Rightarrow> ItemUpdates \<Rightarrow> DownloadItem" where
  "mergeItem i u = i\<lparr>
     status := orKeep (u_status u) (status i),
     progress := orKeep (u_progress u) (progress i),
     error := orKeep (u_error u) (error i),
     speed := orKeep (u_speed u) (speed i),
     eta := orKeep (u_eta u) (eta i),
     extractProgress := orKeep (u_extractProgress u) (extractProgress i),
     downloadPath := orKeep (u_downloadPath u) (downloadPath i),
     pid := orKeep (u_pid u) (pid i)\<rparr>"

fun findItem :: "DownloadItem list \<Rightarrow> string \<Rightarrow> DownloadItem option" where
  "findItem [] n = None"
| "findItem (i # q) n = (if releaseName i = n then Some i else findItem q n)"

fun updateItem :: "DownloadItem list \<Rightarrow> string \<Rightarrow> ItemUpdates \<Rightarrow> DownloadItem list \<times> bool" where
  "updateItem [] n u = ([], False)"
| "updateItem (i # q) n u =
     (if releaseName i = n then (mergeItem i u # q, mergeItem i u \<noteq> i)
      else (i # fst (updateItem q n u), snd (updateItem q n u)))"

section \<open>The download processor\<close>

text \<open>
  A subprocess handle as \<open>execa\<close> returns it: \<open>pid\<close> is undefined when the process could
  not be started, \<open>all\<close> is the combined output stream.
\<close>

record Subprocess =
  proc_pid :: "nat option"
  proc_all :: bool

record VrpConfig =
  baseUri :: "string option"
  password :: "string option"

text \<open>
  What the processor does to the world outside its own fields: spawning the transfer tool,
  detaching the output listeners of an item's process, signalling it, and calling the
  debounced update emitter.
\<close>

datatype Effect =
  Spawn string "string list"
| RemoveAllListeners string
| KillSIGTERM string
| EmitUpdate

record Processor =
  queue :: "DownloadItem list"
  activeDownloads :: "string \<rightharpoonup> Subprocess"
  listening :: "string set"
  vrpConfig :: "VrpConfig option"
  downloadsDir :: string
  effects :: "Effect list"

text \<open>JavaScript truthiness of an optional string and of an optional number.\<close>

definition truthyStr :: "string option \<Rightarrow> bool" where
  "truthyStr s = (case s of None \<Rightarrow> False | Some v \<Rightarrow> v \<noteq> [])"

definition truthyNum :: "nat option \<Rightarrow> bool" where
  "truthyNum n = (case n of None \<Rightarrow> False | Some v \<Rightarrow> v \<noteq> 0)"

text \<open>\<open>a || b\<close> on optional strings.\<close>

definition orElse :: "string option \<Rightarrow> string option \<Rightarrow> string option" where
  "orElse a b = (if truthyStr a then a else b)"

definition queueUpdate :: "Processor \<Rightarrow> string \<Rightarrow> ItemUpdates \<Rightarrow> Processor" where
  "queueUpdate st n u = st\<lparr>queue := fst (updateItem (queue st) n u)\<rparr>"

definition emitIf :: "bool \<Rightarrow> Processor \<Rightarrow> Processor" where
  "emitIf b st = (if b then st\<lparr>effects := effects st @ [EmitUpdate]\<rparr> else st)"

definition statusUpdates ::
  "DownloadStatus \<Rightarrow> nat \<Rightarrow> string option \<Rightarrow> string option \<Rightarrow> string option \<Rightarrow> nat option
   \<Rightarrow> ItemUpdates" where
  "statusUpdates s p err sp et ep =
     noUpdates\<lparr>u_status := Some s, u_progress := Some p, u_error := Some err,
       u_speed := Some sp, u_eta := Some et,
       u_extractProgress :=
         (case ep of Some e \<Rightarrow> Some (Some e)
          | None \<Rightarrow> if s \<noteq> Extracting \<and> s \<noteq> Completed then Some None else None)\<rparr>"

definition updateItemStatus ::
  "Processor \<Rightarrow> string \<Rightarrow> DownloadStatus \<Rightarrow> nat \<Rightarrow> string option \<Rightarrow> string option
   \<Rightarrow> string option \<Rightarrow> nat option \<Rightarrow> Processor" where
  "updateItemStatus st n s p err sp et ep =
     (let u = statusUpdates s p err sp et ep;
          updated = snd (updateItem (queue st) n u)
      in emitIf updated (queueUpdate st n u))"

text \<open>The parameter type \<open>'Cancelled' | 'Error'\<close> of \<open>cancelDownload\<close>.\<close>

datatype FinalStatus = FinalCancelled | FinalError

fun finalStatus :: "FinalStatus \<Rightarrow> DownloadStatus" where
  "finalStatus FinalCancelled = Cancelled"
| "finalStatus FinalError = Error"

definition detachAndKill :: "Processor \<Rightarrow> string \<Rightarrow> Subprocess \<Rightarrow> Processor" where
  "detachAndKill st n p =
     st\<lparr>listening := (if proc_all p then listening st - {n} else listening st),
        effects := effects st @ (if proc_all p then [RemoveAllListeners n] else [])
                     @ [KillSIGTERM n],
        activeDownloads := (activeDownloads st)(n := None)\<rparr>"

definition cancelUpdates :: "DownloadItem \<Rightarrow> FinalStatus \<Rightarrow> string option \<Rightarrow> ItemUpdates" where
  "cancelUpdates item fs errorMsg =
     noUpdates\<lparr>u_pid := Some None,
       u_status := (if \<not> (status item = Error \<and> fs = FinalCancelled)
                    then Some (finalStatus fs) else None),
       u_progress := (if fs = FinalCancelled then Some 0 else None),
       u_error := (if fs = FinalError then Some (orElse errorMsg (error item))
                   else Some None)\<rparr>"

definition cancelDownload ::
  "Processor \<Rightarrow> string \<Rightarrow> FinalStatus \<Rightarrow> string option \<Rightarrow> Processor" where
  "cancelDownload st n fs errorMsg =
     (let st1 = (case activeDownloads st n of
                   Some p \<Rightarrow> if truthyNum (proc_pid p) then detachAndKill st n p else st
                 | None \<Rightarrow> st)
      in case findItem (queue st1) n of
           None \<Rightarrow> st1
         | Some item \<Rightarrow>
             (let u = cancelUpdates item fs errorMsg;
                  updated = snd (updateItem (queue st1) n u)
              in emitIf updated (queueUpdate st1 n u)))"

section \<open>Parsing the transfer tool's output\<close>

text \<open>
  \<open>transferLineRegex = /, (\d+)%, /\<close>: the first position where a comma and a space are
  followed by a run of digits and then by \<open>%, \<close>; the result is the captured digits.
\<close>

definition transferAt :: "string \<Rightarrow> string option" where
  "transferAt s =
     (if startsWith s '', '' then
        (let ds = takeWhile isDigit (drop 2 s); rest = dropWhile isDigit (drop 2 s)
         in if ds \<noteq> [] \<and> startsWith rest ''%, '' then Some ds else None)
      else None)"

fun firstMatch :: "(string \<Rightarrow> 'a option) \<Rightarrow> string \<Rightarrow> 'a option" where
  "firstMatch at [] = at []"
| "firstMatch at (c # cs) =
     (case at (c # cs) of Some m \<Rightarrow> Some m | None \<Rightarrow> firstMatch at cs)"

definition transferLineRegex :: "string \<Rightarrow> string option" where
  "transferLineRegex = firstMatch transferAt"

text \<open>\<open>etaRegex = /, ETA (\S+)/\<close>: the capture is the longest run of non-space characters.\<close>

definition etaAt :: "string \<Rightarrow> string option" where
  "etaAt s =
     (if startsWith s '', ETA '' then
        (let t = takeWhile (\<lambda>c. \<not> isSpace c) (drop 6 s)
         in if t \<noteq> [] then Some t else None)
      else None)"

definition etaRegex :: "string \<Rightarrow> string option" where
  "etaRegex = firstMatch etaAt"

text \<open>
  \<open>speedRegex = /, (\d+\.\d+ \S+?B\/s),/\<close>. \<open>lazyUntil pat s\<close> is the lazy \<open>\S+?\<close>: the
  shortest non-empty run of non-space characters at the head of \<open>s\<close> that is followed by
  \<open>pat\<close>.
\<close>

fun lazyUntil :: "string \<Rightarrow> string \<Rightarrow> string option" where
  "lazyUntil pat [] = None"
| "lazyUntil pat (c # cs) =
     (if isSpace c then None
      else if startsWith cs pat then Some [c]
      else map_option ((#) c) (lazyUntil pat cs))"

definition speedAt :: "string \<Rightarrow> string option" where
  "speedAt s =
     (if startsWith s '', '' then
        (let d1 = takeWhile isDigit (drop 2 s); r1 = dropWhile isDigit (drop 2 s)
         in if d1 \<noteq> [] \<and> startsWith r1 ''.'' then
              (let d2 = takeWhile isDigit (drop 1 r1); r2 = dropWhile isDigit (drop 1 r1)
               in if d2 \<noteq> [] \<and> startsWith r2 '' '' then
                    (case lazyUntil ''B/s,'' (drop 1 r2) of
                       Some u \<Rightarrow> Some (d1 @ ''.'' @ d2 @ '' '' @ u @ ''B/s'')
                     | None \<Rightarrow> None)
                  else None)
            else None)
      else None)"

definition speedRegex :: "string \<Rightarrow> string option" where
  "speedRegex = firstMatch speedAt"

definition isSome :: "'a option \<Rightarrow> bool" where
  "isSome x = (x \<noteq> None)"

section \<open>The data handler of \<open>startDownload\<close>\<close>

text \<open>
  The branch of the handler taken when the item is gone or no longer \<open>Downloading\<close>:
  detach, signal and forget the process, if one is still tracked.
\<close>

definition stopProcessing :: "Processor \<Rightarrow> string \<Rightarrow> Processor" where
  "stopProcessing st n =
     (case activeDownloads st n of Some p \<Rightarrow> detachAndKill st n p | None \<Rightarrow> st)"

definition authFailureLine :: "string \<Rightarrow> bool" where
  "authFailureLine line =
     (includesStr line ''Auth Error'' \<or> includesStr line ''authentication failed'')"

definition authFailedMsg :: string where
  "authFailedMsg = ''Auth failed (check VRP password?)''"

text \<open>
  The body of the loop over \<open>linesToProcess\<close>. \<open>cur\<close> is \<open>currentItemState\<close>, the item
  as \<open>findItem\<close> returned it when the data event began.
\<close>

definition processLine :: "string \<Rightarrow> DownloadItem \<Rightarrow> Processor \<Rightarrow> string \<Rightarrow> Processor" where
  "processLine n cur st line =
     (let st1 =
        (case transferLineRegex line of
           Some ds \<Rightarrow>
             (let currentProgress = parseInt ds
              in if currentProgress \<ge> progress cur then
                   updateItemStatus st n Downloading currentProgress None
                     (orElse (speedRegex line) (speed cur))
                     (orElse (etaRegex line) (eta cur)) None
                 else st)
         | None \<Rightarrow> st)
      in if authFailureLine line
         then cancelDownload st1 n FinalError (Some authFailedMsg)
         else st1)"

definition nonEmptyLines :: "string \<Rightarrow> string list" where
  "nonEmptyLines buf = filter (\<lambda>line. line \<noteq> []) (splitLines [] buf)"

definition lastLineComplete :: "string list \<Rightarrow> bool" where
  "lastLineComplete lines =
     (isSome (transferLineRegex (last lines)) \<and> isSome (etaRegex (last lines)))"

definition linesToProcess :: "string list \<Rightarrow> string list" where
  "linesToProcess lines = (if lastLineComplete lines then lines else butlast lines)"

text \<open>
  One \<open>data\<close> event of the combined output stream. The state of the closure is the
  processor together with \<open>outputBuffer\<close>.
\<close>

definition onData :: "string \<Rightarrow> Processor \<times> string \<Rightarrow> string \<Rightarrow> Processor \<times> string" where
  "onData n sb chunk =
     (let st = fst sb; outputBuffer = snd sb
      in case findItem (queue st) n of
           None \<Rightarrow> (stopProcessing st n, outputBuffer)
         | Some cur \<Rightarrow>
             if status cur \<noteq> Downloading then (stopProcessing st n, outputBuffer)
             else
               (let buf = outputBuffer @ chunk; lines = nonEmptyLines buf
                in if lines = [] then (st, buf)
                   else (foldl (processLine n cur) st (linesToProcess lines),
                         if lastLineComplete lines then [] else last lines)))"

text \<open>The stream delivers a chunk only while the handler is still attached.\<close>

definition deliver :: "string \<Rightarrow> Processor \<times> string \<Rightarrow> string \<Rightarrow> Processor \<times> string" where
  "deliver n sb chunk = (if n \<in> listening (fst sb) then onData n sb chunk else sb)"

section \<open>Subprocess completion\<close>

text \<open>
  What \<open>execa\<close> reports when a subprocess ends: the fields of its result and of its
  \<open>ExecaError\<close> that the drivers read. \<open>exitCode\<close> is undefined when the process was
  ended by a signal.
\<close>

record Termination =
  exitCode :: "nat option"
  isCanceled :: bool
  shortMessage :: string
  message :: string
  out_all :: "string option"
  out_stderr :: "string option"
  out_stdout :: "string option"

text \<open>
  A value thrown into a \<open>catch\<close> block: an \<open>ExecaError\<close>, another \<open>Error\<close> with its
  message, or a value that is not an \<open>Error\<close> (with its \<open>String(...)\<close> rendering).
\<close>

datatype Thrown = ExecaErr Termination | JsError string | NonError string

datatype Settled = Resolved Termination | Rejected Thrown

text \<open>
  Awaiting a subprocess with the default \<open>reject\<close> option of \<open>execa\<close>, which every call
  in the repository uses: the promise resolves on exit code 0 and rejects with an
  \<open>ExecaError\<close> otherwise. The \<open>catch\<close> block of \<open>startDownload\<close> relies on this when it
  looks for exit code 143.
\<close>

definition execaAwait :: "Termination \<Rightarrow> Settled" where
  "execaAwait t =
     (if exitCode t = Some 0 \<and> \<not> isCanceled t then Resolved t else Rejected (ExecaErr t))"

text \<open>
  With the option \<open>buffer: false\<close>, which \<open>startDownload\<close> passes, \<open>execa\<close> keeps none of
  the output: \<open>all\<close>, \<open>stderr\<close> and \<open>stdout\<close> of its result and of its error are undefined.
\<close>

definition unbuffered :: "Termination \<Rightarrow> Termination" where
  "unbuffered t = t\<lparr>out_all := None, out_stderr := None, out_stdout := None\<rparr>"

section \<open>\<open>DownloadProcessor.startDownload\<close>\<close>

record Result =
  success :: bool
  startExtraction :: bool
  finalState :: "DownloadItem option"

definition failed :: "DownloadItem option \<Rightarrow> Result" where
  "failed fin = \<lparr>success = False, startExtraction = False, finalState = fin\<rparr>"

text \<open>
  The collaborators of one call: the dependency service's \<open>getRclonePath\<close>, \<open>path.join\<close>,
  \<open>fs.mkdir\<close> (\<open>None\<close> when it succeeds) and \<open>execa\<close> itself.
\<close>

record Env =
  getRclonePath :: string
  pathJoin :: "string \<Rightarrow> string \<Rightarrow> string"
  mkdir :: "string \<Rightarrow> Thrown option"
  execa :: "string \<Rightarrow> string list \<Rightarrow> Subprocess"

text \<open>\<open>digest('hex')\<close>: two lowercase hexadecimal digits per byte, high nibble first.\<close>

definition hexDigit :: "nat \<Rightarrow> char" where
  "hexDigit k = ''0123456789abcdef'' ! (k mod 16)"

definition hexByte :: "8 word \<Rightarrow> string" where
  "hexByte b = [hexDigit (unat b div 16), hexDigit (unat b mod 16)]"

definition digestHex :: "8 word list \<Rightarrow> string" where
  "digestHex bs = concat (map hexByte bs)"

definition gameNameHash :: "string \<Rightarrow> string" where
  "gameNameHash rn = digestHex (md5Digest (rn @ [LF]))"

definition rcloneArgs :: "string \<Rightarrow> string \<Rightarrow> string \<Rightarrow> string list" where
  "rcloneArgs source dlPath uri =
     [''copy'', source, dlPath, ''--http-url'', uri, ''--no-check-certificate'',
      ''--progress'', ''--stats=1s'', ''--stats-one-line'']"

text \<open>
  \<open>!this.vrpConfig?.baseUri || !this.vrpConfig?.password\<close> fails: the base URI, when both
  are present and non-empty.
\<close>

definition configuredBaseUri :: "VrpConfig option \<Rightarrow> string option" where
  "configuredBaseUri cfg =
     (case cfg of
        None \<Rightarrow> None
      | Some c \<Rightarrow> if truthyStr (baseUri c) \<and> truthyStr (password c) then baseUri c else None)"

definition mkdirMessage :: "string \<Rightarrow> Thrown \<Rightarrow> string" where
  "mkdirMessage dlPath err =
     (case err of
        ExecaErr t \<Rightarrow> ''Failed to create directory: '' @ message t
      | JsError m \<Rightarrow> ''Failed to create directory: '' @ m
      | NonError v \<Rightarrow> ''Failed to create directory '' @ dlPath)"

definition pidUndefined :: ItemUpdates where
  "pidUndefined = noUpdates\<lparr>u_pid := Some None\<rparr>"

text \<open>
  \<open>startDownload\<close> up to the point where it awaits the subprocess: it has returned early,
  or the process runs with the data handler attached, or starting the process has thrown
  into the \<open>catch\<close> block.
\<close>

datatype Started = Returned Processor Result | Running Processor | StartFailed Processor

definition startBegin :: "Env \<Rightarrow> Processor \<Rightarrow> DownloadItem \<Rightarrow> Started" where
  "startBegin env st item =
     (let n = releaseName item
      in case configuredBaseUri (vrpConfig st) of
           None \<Rightarrow>
             Returned (updateItemStatus st n Error 0 (Some ''Missing VRP configuration'')
                         None None None) (failed None)
         | Some uri \<Rightarrow>
             if getRclonePath env = [] then
               Returned (updateItemStatus st n Error 0 (Some ''Rclone dependency not found'')
                           None None None) (failed None)
             else
               (let dlPath = pathJoin env (downloadsDir st) n;
                    st1 = queueUpdate st n (noUpdates\<lparr>u_downloadPath := Some (Some dlPath)\<rparr>)
                in case mkdir env dlPath of
                     Some err \<Rightarrow>
                       Returned (updateItemStatus st1 n Error 0
                                   (Some (substring0 500 (mkdirMessage dlPath err)))
                                   None None None) (failed None)
                   | None \<Rightarrow>
                       (let st2 = updateItemStatus st1 n Downloading 0 None None None None;
                            source = '':http:/'' @ gameNameHash n;
                            args = rcloneArgs source dlPath uri;
                            rcloneProcess = execa env (getRclonePath env) args;
                            st3 = st2\<lparr>effects := effects st2 @ [Spawn (getRclonePath env) args]\<rparr>
                        in if truthyNum (proc_pid rcloneProcess) \<and> proc_all rcloneProcess
                           then Running
                             (queueUpdate
                                (st3\<lparr>activeDownloads := (activeDownloads st3)(n \<mapsto> rcloneProcess),
                                     listening := insert n (listening st3)\<rparr>)
                                n (noUpdates\<lparr>u_pid := Some (proc_pid rcloneProcess)\<rparr>))
                           else StartFailed st3)))"

text \<open>\<open>if (this.activeDownloads.has(name)) { delete; updateItem(name, {pid: undefined}) }\<close>\<close>

definition cleanupHandle :: "Processor \<Rightarrow> string \<Rightarrow> Processor" where
  "cleanupHandle st n =
     (case activeDownloads st n of
        None \<Rightarrow> st
      | Some p \<Rightarrow> queueUpdate (st\<lparr>activeDownloads := (activeDownloads st)(n := None)\<rparr>) n pidUndefined)"

text \<open>The code after \<open>await rcloneProcess\<close> when the promise resolves.\<close>

definition afterAwait :: "string \<Rightarrow> Processor \<Rightarrow> Processor \<times> Result" where
  "afterAwait n st =
     (let finalItemState = findItem (queue st) n
      in if map_option status finalItemState \<noteq> Some Downloading
         then (cleanupHandle st n, failed finalItemState)
         else (queueUpdate (st\<lparr>activeDownloads := (activeDownloads st)(n := None)\<rparr>) n pidUndefined,
               \<lparr>success = True, startExtraction = True, finalState = finalItemState\<rparr>))"

text \<open>
  The diagnostic of an \<open>ExecaError\<close>: the short message (or the message), followed by the
  last five lines of the captured output when there is any.
\<close>

definition capturedOutput :: "Termination \<Rightarrow> string" where
  "capturedOutput t =
     (case orElse (orElse (out_all t) (out_stderr t)) (out_stdout t) of
        None \<Rightarrow> [] | Some v \<Rightarrow> v)"

definition outputTail :: "Termination \<Rightarrow> string" where
  "outputTail t = joinWith [LF] (sliceLast 5 (splitOn LF [] (capturedOutput t)))"

definition execaErrorMessage :: "Termination \<Rightarrow> string" where
  "execaErrorMessage t =
     (let errorMessage = (if shortMessage t \<noteq> [] then shortMessage t else message t);
          lastLines = outputTail t
      in if lastLines \<noteq> [] then errorMessage @ [LF] @ ''...'' @ [LF] @ lastLines
         else errorMessage)"

definition progressOr0 :: "DownloadItem option \<Rightarrow> nat" where
  "progressOr0 it = (case it of None \<Rightarrow> 0 | Some i \<Rightarrow> progress i)"

text \<open>The end of the \<open>catch\<close> block, once \<open>errorMessage\<close> has been truncated.\<close>

definition recordError ::
  "string \<Rightarrow> Processor \<Rightarrow> DownloadItem option \<Rightarrow> string \<Rightarrow> Processor \<times> Result" where
  "recordError n st currentItemState errorMessage =
     (let statusBeforeCatch = map_option status currentItemState;
          st' =
            (if statusBeforeCatch \<noteq> Some Cancelled \<and> statusBeforeCatch \<noteq> Some Error then
               updateItemStatus st n Error (progressOr0 currentItemState) (Some errorMessage)
                 None None None
             else if statusBeforeCatch = Some Error then
               emitIf True (queueUpdate st n (noUpdates\<lparr>u_error := Some (Some errorMessage)\<rparr>))
             else st)
      in (st', failed (findItem (queue st') n)))"

text \<open>The \<open>catch\<close> block of \<open>startDownload\<close>.\<close>

definition catchBlock :: "string \<Rightarrow> Processor \<Rightarrow> Thrown \<Rightarrow> Processor \<times> Result" where
  "catchBlock n st err =
     (let currentItemState = findItem (queue st) n;
          statusBeforeCatch = map_option status currentItemState
      in case err of
           ExecaErr t \<Rightarrow>
             if exitCode t = Some 143 then (cleanupHandle st n, failed currentItemState)
             else if isCanceled t then
               (let st1 = cleanupHandle st n;
                    st2 = (if statusBeforeCatch \<noteq> Some Cancelled \<and> statusBeforeCatch \<noteq> Some Error
                           then updateItemStatus st1 n Cancelled (progressOr0 currentItemState)
                                  None None None None
                           else st1)
                in (st2, failed (findItem (queue st2) n)))
             else recordError n (cleanupHandle st n) currentItemState
                    (substring0 500 (execaErrorMessage t))
         | JsError m \<Rightarrow>
             recordError n (cleanupHandle st n) currentItemState (substring0 500 m)
         | NonError v \<Rightarrow>
             recordError n (cleanupHandle st n) currentItemState (substring0 500 v))"

definition onSettled :: "string \<Rightarrow> Processor \<Rightarrow> Settled \<Rightarrow> Processor \<times> Result" where
  "onSettled n st s =
     (case s of Resolved t \<Rightarrow> afterAwait n st | Rejected err \<Rightarrow> catchBlock n st err)"

text \<open>
  A whole call of \<open>startDownload\<close> during which nothing but the subprocess acts on the
  processor: the data events \<open>chunks\<close> arrive in order, then the process ends with \<open>t\<close>,
  of which \<open>execa\<close> reports no output.
\<close>

definition startDownload ::
  "Env \<Rightarrow> Processor \<Rightarrow> DownloadItem \<Rightarrow> string list \<Rightarrow> Termination \<Rightarrow> Processor \<times> Result" where
  "startDownload env st item chunks t =
     (case startBegin env st item of
        Returned st' r \<Rightarrow> (st', r)
      | StartFailed st' \<Rightarrow>
          catchBlock (releaseName item) st' (JsError ''Failed to start rclone process.'')
      | Running st' \<Rightarrow>
          onSettled (releaseName item)
            (fst (foldl (deliver (releaseName item)) (st', []) chunks))
            (execaAwait (unbuffered t)))"

section \<open>\<open>GameService.extractMetaArchive\<close>\<close>

text \<open>
  The variables the output handlers of the extraction subprocess share. The progress
  notifications sent to the renderer window are computed from the two counters and do
  not influence the outcome of the call; they are not part of the model.
\<close>

record Extraction =
  totalFiles :: nat
  extractedFiles :: nat
  wrongPassword :: bool

datatype Output = Stdout string | Stderr string

text \<open>\<open>/(\d+) files?/i\<close>: a run of digits followed, in any letter case, by \<open>" file"\<close>.\<close>

definition fileWordAt :: "string \<Rightarrow> bool" where
  "fileWordAt s =
     (case s of
        c0 # c1 # c2 # c3 # c4 # rest \<Rightarrow>
          c0 = CHR '' '' \<and> c1 \<in> set ''fF'' \<and> c2 \<in> set ''iI'' \<and> c3 \<in> set ''lL''
          \<and> c4 \<in> set ''eE''
      | _ \<Rightarrow> False)"

definition filesAt :: "string \<Rightarrow> string option" where
  "filesAt s =
     (let ds = takeWhile isDigit s; rest = dropWhile isDigit s
      in if ds \<noteq> [] \<and> fileWordAt rest then Some ds else None)"

definition filesRegex :: "string \<Rightarrow> string option" where
  "filesRegex = firstMatch filesAt"

definition onStdout :: "Extraction \<Rightarrow> string \<Rightarrow> Extraction" where
  "onStdout ex output =
     (let ex1 = (if includesStr output ''Wrong password'' then ex\<lparr>wrongPassword := True\<rparr> else ex);
          ex2 = (case filesRegex output of
                   Some ds \<Rightarrow> if totalFiles ex1 = 0 then ex1\<lparr>totalFiles := parseInt ds\<rparr> else ex1
                 | None \<Rightarrow> ex1)
      in if includesStr output ''Extracting''
         then ex2\<lparr>extractedFiles := extractedFiles ex2 + 1\<rparr> else ex2)"

definition onStderr :: "Extraction \<Rightarrow> string \<Rightarrow> Extraction" where
  "onStderr ex err =
     (if includesStr err ''Wrong password'' then ex\<lparr>wrongPassword := True\<rparr> else ex)"

fun onOutput :: "Extraction \<Rightarrow> Output \<Rightarrow> Extraction" where
  "onOutput ex (Stdout d) = onStdout ex d"
| "onOutput ex (Stderr d) = onStderr ex d"

definition extractionStart :: Extraction where
  "extractionStart = \<lparr>totalFiles = 0, extractedFiles = 0, wrongPassword = False\<rparr>"

text \<open>
  \<open>dependencyService.get7zPath\<close>; \<open>locate platformDir binaryName\<close> stands for the \<open>join\<close>
  of the resources directory with the two names.
\<close>

definition get7zPath :: "string \<Rightarrow> (string \<Rightarrow> string \<Rightarrow> string) \<Rightarrow> Thrown + string" where
  "get7zPath platform locate =
     (if platform = ''win32'' then Inr (locate ''win'' ''7za.exe'')
      else if platform = ''linux'' then Inr (locate ''linux'' ''7zzs'')
      else if platform = ''darwin'' then Inr (locate ''mac'' ''7zz'')
      else Inl (JsError (''Unsupported platform for bundled 7zip: '' @ platform)))"

text \<open>Template-literal rendering of a number, of an optional number and of an optional string.\<close>

definition decimalDigit :: "nat \<Rightarrow> char" where
  "decimalDigit k = ''0123456789'' ! (k mod 10)"

function showNat :: "nat \<Rightarrow> string" where
  "showNat k =
     (if k < 10 then [decimalDigit k] else showNat (k div 10) @ [decimalDigit (k mod 10)])"
  by pat_completeness auto
termination
  by (relation "measure (\<lambda>k. k)") auto

definition showExitCode :: "nat option \<Rightarrow> string" where
  "showExitCode c = (case c of None \<Rightarrow> ''undefined'' | Some k \<Rightarrow> showNat k)"

definition showText :: "string option \<Rightarrow> string" where
  "showText v = (case v of None \<Rightarrow> ''undefined'' | Some x \<Rightarrow> x)"

definition wrongPasswordMsg :: string where
  "wrongPasswordMsg = ''Extraction failed: Wrong password for archive''"

text \<open>
  The inner \<open>try\<close> block: locating the tool, running it with the output handlers attached,
  awaiting it, and the test of the exit code of the result. \<open>Inl\<close> is a thrown value.
  Decoding the password (\<open>Buffer.from(..., 'base64')\<close>) does not throw and only feeds the
  arguments of the subprocess.
\<close>

definition extractBody ::
  "string \<Rightarrow> (string \<Rightarrow> string \<Rightarrow> string) \<Rightarrow> Output list \<Rightarrow> Settled \<Rightarrow> Thrown + unit" where
  "extractBody platform locate outputs settled =
     (case get7zPath platform locate of
        Inl err \<Rightarrow> Inl err
      | Inr sevenZipPath \<Rightarrow>
          (let ex = foldl onOutput extractionStart outputs
           in case settled of
                Rejected err \<Rightarrow> Inl err
              | Resolved r \<Rightarrow>
                  if exitCode r \<noteq> Some 0 then
                    (if wrongPassword ex then Inl (JsError wrongPasswordMsg)
                     else Inl (JsError (''7z failed with exit code '' @ showExitCode (exitCode r)
                                         @ '': '' @ showText (out_stderr r))))
                  else Inr ()))"

text \<open>The inner \<open>catch (decodeError)\<close>, which rethrows every error of the block above.\<close>

definition thrownText :: "Thrown \<Rightarrow> string" where
  "thrownText err = (case err of ExecaErr t \<Rightarrow> message t | JsError m \<Rightarrow> m | NonError v \<Rightarrow> v)"

definition passwordCatch :: "Thrown + unit \<Rightarrow> string + unit" where
  "passwordCatch r =
     (case r of Inl err \<Rightarrow> Inl (''Failed to use password: '' @ thrownText err) | Inr u \<Rightarrow> Inr u)"

text \<open>
  The whole method; the result is the message of the \<open>Error\<close> it throws, or \<open>Inr ()\<close> when
  it returns. The subprocess ends with \<open>t\<close> and is awaited like every other one.
\<close>

definition extractMetaArchive ::
  "VrpConfig option \<Rightarrow> string \<Rightarrow> (string \<Rightarrow> string \<Rightarrow> string) \<Rightarrow> Output list \<Rightarrow> Termination
   \<Rightarrow> string + unit" where
  "extractMetaArchive cfg platform locate outputs t =
     (if \<not> truthyStr (case cfg of None \<Rightarrow> None | Some c \<Rightarrow> password c)
      then Inl ''Password not found in vrpConfig''
      else passwordCatch (extractBody platform locate outputs (execaAwait t)))"

section \<open>Observations and sample runs\<close>

text \<open>The subprocesses a processor has spawned, in order.\<close>

fun spawnsOf :: "Effect list \<Rightarrow> (string \<times> string list) list" where
  "spawnsOf [] = []"
| "spawnsOf (Spawn file args # es) = (file, args) # spawnsOf es"
| "spawnsOf (e # es) = spawnsOf es"

text \<open>The termination signals a processor has sent, in order.\<close>

fun signalsOf :: "Effect list \<Rightarrow> string list" where
  "signalsOf [] = []"
| "signalsOf (KillSIGTERM n # es) = n # signalsOf es"
| "signalsOf (e # es) = signalsOf es"

fun startedProcessor :: "Started \<Rightarrow> Processor" where
  "startedProcessor (Returned st r) = st"
| "startedProcessor (Running st) = st"
| "startedProcessor (StartFailed st) = st"

text \<open>What a consumer of the queue sees of an item: status, progress and error.\<close>

definition observed :: "Processor \<Rightarrow> string \<Rightarrow> (DownloadStatus \<times> nat \<times> string option) option" where
  "observed st n = map_option (\<lambda>i. (status i, progress i, error i)) (findItem (queue st) n)"

text \<open>The figures the data handler parses into an item: progress, speed and ETA.\<close>

definition rate :: "Processor \<Rightarrow> string \<Rightarrow> (nat \<times> string option \<times> string option) option" where
  "rate st n = map_option (\<lambda>i. (progress i, speed i, eta i)) (findItem (queue st) n)"

text \<open>The invariant of the data model: an error message exactly in the two error states.\<close>

definition errorIffFailed :: "DownloadItem \<Rightarrow> bool" where
  "errorIffFailed i = (truthyStr (error i) = (status i = Error \<or> status i = InstallError))"

text \<open>
  The item \<open>n\<close> is in the queue with at least \<open>p\<close> percent recorded.
\<close>

definition progressAtLeast :: "nat \<Rightarrow> string \<Rightarrow> Processor \<Rightarrow> bool" where
  "progressAtLeast p n st = (case findItem (queue st) n of None \<Rightarrow> False | Some i \<Rightarrow> p \<le> progress i)"

text \<open>
  One half of that invariant: an item that has an error message is in an error state.
\<close>

definition errorOnlyWhenFailed :: "DownloadItem \<Rightarrow> bool" where
  "errorOnlyWhenFailed i =
     (if truthyStr (error i) then status i = Error \<or> status i = InstallError else True)"

definition errorsOnlyOnFailed :: "Processor \<Rightarrow> bool" where
  "errorsOnlyOnFailed st = list_all errorOnlyWhenFailed (queue st)"

text \<open>Text in which a UTF-8 byte and a UTF-16 code unit are the same thing.\<close>

definition asciiText :: "string \<Rightarrow> bool" where
  "asciiText s = list_all (\<lambda>c. (of_char c :: nat) < 128) s"

text \<open>A release \<open>g\<close>, a processor that holds it, and the collaborators of a working host.\<close>

definition sampleItem :: "DownloadStatus \<Rightarrow> nat \<Rightarrow> string option \<Rightarrow> DownloadItem" where
  "sampleItem s p e = \<lparr>releaseName = ''g'', packageName = ''com.example.g'',
     displayName = ''G'', status = s, progress = p, error = e, speed = None, eta = None,
     extractProgress = None, downloadPath = None, pid = None\<rparr>"

definition sampleConfig :: VrpConfig where
  "sampleConfig = \<lparr>baseUri = Some ''https://host/'', password = Some ''cGFzcw==''\<rparr>"

definition idleProcessor :: "VrpConfig option \<Rightarrow> DownloadItem list \<Rightarrow> Processor" where
  "idleProcessor cfg q = \<lparr>queue = q, activeDownloads = Map.empty, listening = {},
     vrpConfig = cfg, downloadsDir = ''/dl'', effects = []\<rparr>"

definition sampleProcess :: Subprocess where
  "sampleProcess = \<lparr>proc_pid = Some 4242, proc_all = True\<rparr>"

definition sampleEnv :: Env where
  "sampleEnv = \<lparr>getRclonePath = ''/bin/rclone'', pathJoin = (\<lambda>a b. a @ ''/'' @ b),
     mkdir = (\<lambda>p. None), execa = (\<lambda>file args. sampleProcess)\<rparr>"

text \<open>The processor while the transfer of \<open>g\<close> runs, with \<open>p\<close> percent recorded.\<close>

definition downloadingItem :: "nat \<Rightarrow> DownloadItem" where
  "downloadingItem p = (sampleItem Downloading p None)\<lparr>downloadPath := Some ''/dl/g'',
     pid := Some 4242\<rparr>"

definition downloadingProcessor :: "nat \<Rightarrow> Processor" where
  "downloadingProcessor p = \<lparr>queue = [downloadingItem p],
     activeDownloads = [''g'' \<mapsto> sampleProcess], listening = {''g''},
     vrpConfig = Some sampleConfig, downloadsDir = ''/dl'', effects = []\<rparr>"

definition exited :: "nat \<Rightarrow> Termination" where
  "exited c = \<lparr>exitCode = Some c, isCanceled = False,
     shortMessage = ''Command failed with exit code '' @ showNat c,
     message = ''Command failed with exit code '' @ showNat c,
     out_all = None, out_stderr = None, out_stdout = None\<rparr>"

definition line50 :: string where
  "line50 = ''5 MiB / 10 MiB, 50%, 1.0 MiB/s, ETA 5s''"

definition line20 :: string where
  "line20 = ''2 MiB / 10 MiB, 20%, 1.0 MiB/s, ETA 8s''"

definition authLine :: string where
  "authLine = ''ERROR : Auth Error''"

definition failLine :: string where
  "failLine = ''ERROR : Failed to copy: connection reset''"

definition halfConfigured :: "VrpConfig option" where
  "halfConfigured = Some \<lparr>baseUri = Some ''https://host/'', password = None\<rparr>"


section \<open>Properties of the queue store\<close>

lemma releaseName_mergeItem [simp]: "releaseName (mergeItem i u) = releaseName i"
  by (simp add: mergeItem_def)

lemma findItem_updateItem:
  "findItem (fst (updateItem q n u)) n = map_option (\<lambda>i. mergeItem i u) (findItem q n)"
  by (induction q) auto

lemma updateItem_absent: "findItem q n = None \<Longrightarrow> updateItem q n u = (q, False)"
  by (induction q) (auto split: if_splits)

lemma updateItem_unchanged:
  "findItem q n = Some i \<Longrightarrow> mergeItem i u = i \<Longrightarrow> updateItem q n u = (q, False)"
  by (induction q) (auto split: if_splits)

lemma mergeItem_pidUndefined: "pid i = None \<Longrightarrow> mergeItem i pidUndefined = i"
  by (cases i) (simp add: mergeItem_def pidUndefined_def noUpdates_def orKeep_def)

lemma findItem_queueUpdate:
  "findItem (queue (queueUpdate st n u)) n = map_option (\<lambda>i. mergeItem i u) (findItem (queue st) n)"
  by (simp add: queueUpdate_def findItem_updateItem)

lemma findItem_updateItemStatus:
  "findItem (queue (updateItemStatus st n s p e sp et ep)) n
     = map_option (\<lambda>i. mergeItem i (statusUpdates s p e sp et ep)) (findItem (queue st) n)"
  by (simp add: updateItemStatus_def Let_def emitIf_def findItem_queueUpdate)

section \<open>What the operations leave alone\<close>

lemma spawnsOf_append: "spawnsOf (xs @ ys) = spawnsOf xs @ spawnsOf ys"
  by (induction xs rule: spawnsOf.induct) auto

lemma signalsOf_append: "signalsOf (xs @ ys) = signalsOf xs @ signalsOf ys"
  by (induction xs rule: signalsOf.induct) auto

lemma frame_queueUpdate [simp]:
  "effects (queueUpdate st n u) = effects st"
  "activeDownloads (queueUpdate st n u) = activeDownloads st"
  "listening (queueUpdate st n u) = listening st"
  "vrpConfig (queueUpdate st n u) = vrpConfig st"
  "downloadsDir (queueUpdate st n u) = downloadsDir st"
  by (simp_all add: queueUpdate_def)

lemma frame_emitIf [simp]:
  "queue (emitIf b st) = queue st"
  "activeDownloads (emitIf b st) = activeDownloads st"
  "listening (emitIf b st) = listening st"
  "vrpConfig (emitIf b st) = vrpConfig st"
  "downloadsDir (emitIf b st) = downloadsDir st"
  "spawnsOf (effects (emitIf b st)) = spawnsOf (effects st)"
  "signalsOf (effects (emitIf b st)) = signalsOf (effects st)"
  by (simp_all add: emitIf_def spawnsOf_append signalsOf_append)

lemma frame_updateItemStatus [simp]:
  "activeDownloads (updateItemStatus st n s p e sp et ep) = activeDownloads st"
  "listening (updateItemStatus st n s p e sp et ep) = listening st"
  "vrpConfig (updateItemStatus st n s p e sp et ep) = vrpConfig st"
  "downloadsDir (updateItemStatus st n s p e sp et ep) = downloadsDir st"
  "spawnsOf (effects (updateItemStatus st n s p e sp et ep)) = spawnsOf (effects st)"
  "signalsOf (effects (updateItemStatus st n s p e sp et ep)) = signalsOf (effects st)"
  by (simp_all add: updateItemStatus_def Let_def)

section \<open>Cleaning up, settling and stopped items\<close>

lemma queue_detachAndKill [simp]: "queue (detachAndKill st n p) = queue st"
  by (simp add: detachAndKill_def)

lemma queue_stopProcessing [simp]: "queue (stopProcessing st n) = queue st"
  by (simp add: stopProcessing_def split: option.splits)

lemma findItem_cleanupHandle:
  "findItem (queue (cleanupHandle st n)) n
     = map_option (\<lambda>i. case activeDownloads st n of None \<Rightarrow> i | Some p \<Rightarrow> mergeItem i pidUndefined)
         (findItem (queue st) n)"
  by (cases "findItem (queue st) n")
     (simp_all add: cleanupHandle_def queueUpdate_def findItem_updateItem split: option.splits)

lemma observed_mergeItem_pid:
  "(\<lambda>i. (status i, progress i, error i)) (mergeItem i pidUndefined) = (status i, progress i, error i)"
  by (simp add: mergeItem_def pidUndefined_def noUpdates_def orKeep_def)

lemma observed_cleanupHandle: "observed (cleanupHandle st n) n = observed st n"
  by (cases "findItem (queue st) n"; cases "activeDownloads st n")
     (simp_all add: observed_def findItem_cleanupHandle mergeItem_def pidUndefined_def
        noUpdates_def orKeep_def)

lemma observed_updateItemStatus:
  "observed (updateItemStatus st n s p e sp et ep) n = map_option (\<lambda>i. (s, p, e)) (observed st n)"
  by (simp add: observed_def findItem_updateItemStatus mergeItem_def statusUpdates_def
      noUpdates_def orKeep_def option.map_comp comp_def)

lemma observed_queueUpdate_pid: "observed (queueUpdate st n pidUndefined) n = observed st n"
  by (cases "findItem (queue st) n")
     (simp_all add: observed_def findItem_queueUpdate mergeItem_def pidUndefined_def
        noUpdates_def orKeep_def)

lemma observed_cong_queue: "queue a = queue b \<Longrightarrow> observed a n = observed b n"
  by (simp add: observed_def)

lemma outputTail_unbuffered: "outputTail (unbuffered t) = []"
  by (simp add: outputTail_def capturedOutput_def unbuffered_def orElse_def truthyStr_def
      sliceLast_def)

lemma execaErrorMessage_unbuffered:
  "execaErrorMessage (unbuffered t) = (if shortMessage t \<noteq> [] then shortMessage t else message t)"
  by (simp add: execaErrorMessage_def outputTail_unbuffered Let_def) (simp add: unbuffered_def)

lemma length_substring0: "length (substring0 k s) \<le> k"
  by (simp add: substring0_def)

lemma length_sliceLast: "length (sliceLast k xs) \<le> k"
  by (simp add: sliceLast_def)

lemma sliceLast_suffix: "drop (length xs - length (sliceLast k xs)) xs = sliceLast k xs"
  by (simp add: sliceLast_def)

lemma queue_cleanupHandle:
  assumes "\<And>i. findItem (queue st) n = Some i \<Longrightarrow> pid i = None"
  shows "queue (cleanupHandle st n) = queue st"
proof (cases "findItem (queue st) n")
  case None
  then show ?thesis
    by (simp add: cleanupHandle_def queueUpdate_def updateItem_absent split: option.splits)
next
  case (Some i)
  with assms have "mergeItem i pidUndefined = i" by (simp add: mergeItem_pidUndefined)
  with Some show ?thesis
    by (simp add: cleanupHandle_def queueUpdate_def updateItem_unchanged split: option.splits)
qed

lemma onData_not_downloading:
  "map_option status (findItem (queue (fst sb)) n) \<noteq> Some Downloading
   \<Longrightarrow> queue (fst (onData n sb c)) = queue (fst sb)"
  by (auto simp: onData_def Let_def split: option.splits)

lemma deliver_not_downloading:
  "map_option status (findItem (queue (fst sb)) n) \<noteq> Some Downloading
   \<Longrightarrow> queue (fst (deliver n sb c)) = queue (fst sb)"
  by (simp add: deliver_def onData_not_downloading)

lemma foldl_onData_not_downloading:
  "map_option status (findItem (queue (fst sb)) n) \<noteq> Some Downloading
   \<Longrightarrow> queue (fst (foldl (onData n) sb cs)) = queue (fst sb)"
proof (induction cs arbitrary: sb)
  case Nil
  then show ?case by simp
next
  case (Cons c cs)
  have q: "queue (fst (onData n sb c)) = queue (fst sb)"
    using Cons.prems by (rule onData_not_downloading)
  with Cons.prems
  have "map_option status (findItem (queue (fst (onData n sb c))) n) \<noteq> Some Downloading"
    by simp
  from Cons.IH [OF this] q show ?case by simp
qed

lemma onSettled_cancelled:
  assumes "findItem (queue st) n = Some i" and "status i = Cancelled" and "pid i = None"
  shows "queue (fst (onSettled n st s)) = queue st \<and> snd (onSettled n st s) = failed (Some i)"
proof -
  have c: "queue (cleanupHandle st n) = queue st"
    using assms by (intro queue_cleanupHandle) simp
  show ?thesis
    using assms c
    by (auto simp: onSettled_def afterAwait_def catchBlock_def recordError_def Let_def failed_def
        split: Settled.splits Thrown.splits)
qed

lemma findItem_cancelDownload:
  "findItem (queue (cancelDownload st n fs msg)) n
     = map_option (\<lambda>i. mergeItem i (cancelUpdates i fs msg)) (findItem (queue st) n)"
  by (cases "findItem (queue st) n")
     (auto simp: cancelDownload_def Let_def findItem_queueUpdate split: option.splits)

lemma configuredBaseUri_None_iff:
  "configuredBaseUri cfg = None \<longleftrightarrow>
     (cfg = None \<or> (\<exists>c. cfg = Some c \<and> \<not> (truthyStr (baseUri c) \<and> truthyStr (password c))))"
  by (auto simp: configuredBaseUri_def truthyStr_def split: option.splits)

lemma configuredBaseUri_Some:
  "vrpConfig st = Some cfg \<Longrightarrow> baseUri cfg = Some uri \<Longrightarrow> uri \<noteq> []
   \<Longrightarrow> truthyStr (password cfg) \<Longrightarrow> configuredBaseUri (vrpConfig st) = Some uri"
  by (simp add: configuredBaseUri_def truthyStr_def)

lemma startDownload_unconfigured:
  assumes "configuredBaseUri (vrpConfig st) = None"
  shows "startDownload env st item chunks t
           = (updateItemStatus st (releaseName item) Error 0 (Some ''Missing VRP configuration'')
                None None None, failed None)"
  using assms by (simp add: startDownload_def startBegin_def)

lemma extract_rejected:
  assumes "truthyStr (case cfg of None \<Rightarrow> None | Some c \<Rightarrow> password c)"
    and "get7zPath platform locate = Inr path"
    and "exitCode t \<noteq> Some 0"
  shows "extractMetaArchive cfg platform locate outputs t
           = Inl (''Failed to use password: '' @ message t)"
  using assms
  by (simp add: extractMetaArchive_def extractBody_def execaAwait_def passwordCatch_def
      thrownText_def Let_def)

section \<open>Progress recorded by the data handler\<close>

lemma progressAtLeast_updateItemStatus:
  "progressAtLeast p n st \<Longrightarrow> p \<le> p' \<Longrightarrow> progressAtLeast p n (updateItemStatus st n s p' e sp et ep)"
  by (auto simp: progressAtLeast_def findItem_updateItemStatus mergeItem_def statusUpdates_def
      noUpdates_def orKeep_def split: option.splits)

lemma progressAtLeast_cancel_error:
  "progressAtLeast p n st \<Longrightarrow> progressAtLeast p n (cancelDownload st n FinalError msg)"
  by (auto simp: progressAtLeast_def findItem_cancelDownload mergeItem_def cancelUpdates_def
      noUpdates_def orKeep_def split: option.splits)

lemma progressAtLeast_processLine:
  "progressAtLeast (progress cur) n st \<Longrightarrow> progressAtLeast (progress cur) n (processLine n cur st line)"
  by (auto simp: processLine_def Let_def progressAtLeast_updateItemStatus
      progressAtLeast_cancel_error split: option.splits)

lemma progressAtLeast_foldl_processLine:
  "progressAtLeast (progress cur) n st
   \<Longrightarrow> progressAtLeast (progress cur) n (foldl (processLine n cur) st ls)"
  by (induction ls arbitrary: st) (simp_all add: progressAtLeast_processLine)

lemma progressAtLeast_queue: "queue a = queue b \<Longrightarrow> progressAtLeast p n a = progressAtLeast p n b"
  by (simp add: progressAtLeast_def)

lemma progressAtLeast_mono: "progressAtLeast p n st \<Longrightarrow> q \<le> p \<Longrightarrow> progressAtLeast q n st"
  by (auto simp: progressAtLeast_def split: option.splits)

lemma progressAtLeast_onData:
  assumes "progressAtLeast p n (fst sb)"
  shows "progressAtLeast p n (fst (onData n sb chunk))"
proof -
  obtain cur where cur: "findItem (queue (fst sb)) n = Some cur" and le: "p \<le> progress cur"
    using assms by (auto simp: progressAtLeast_def split: option.splits)
  have self: "progressAtLeast (progress cur) n (fst sb)"
    using cur by (simp add: progressAtLeast_def)
  show ?thesis
  proof (cases "status cur = Downloading")
    case False
    with cur have "queue (fst (onData n sb chunk)) = queue (fst sb)"
      by (intro onData_not_downloading) simp
    then have "progressAtLeast p n (fst (onData n sb chunk)) = progressAtLeast p n (fst sb)"
      by (rule progressAtLeast_queue)
    with assms show ?thesis by simp
  next
    case True
    have "progressAtLeast (progress cur) n (fst (onData n sb chunk))"
      using cur True self
      by (simp add: onData_def Let_def progressAtLeast_foldl_processLine)
    then show ?thesis using le by (rule progressAtLeast_mono)
  qed
qed

lemma progressAtLeast_deliver:
  "progressAtLeast p n (fst sb) \<Longrightarrow> progressAtLeast p n (fst (deliver n sb chunk))"
  by (simp add: deliver_def progressAtLeast_onData)

section \<open>Cancelling a tracked process\<close>

lemma detachAndKill_signals:
  "signalsOf (effects (detachAndKill st n p)) = signalsOf (effects st) @ [n]"
  by (simp add: detachAndKill_def signalsOf_append)

lemma detachAndKill_active: "activeDownloads (detachAndKill st n p) n = None"
  by (simp add: detachAndKill_def)

lemma cancelDownload_tracked:
  assumes "activeDownloads st n = Some p" and "truthyNum (proc_pid p)"
  shows "signalsOf (effects (cancelDownload st n fs msg)) = signalsOf (effects st) @ [n]
       \<and> activeDownloads (cancelDownload st n fs msg) n = None"
proof (cases "findItem (queue st) n")
  case None
  with assms show ?thesis
    by (simp add: cancelDownload_def Let_def detachAndKill_signals detachAndKill_active)
next
  case (Some i)
  with assms show ?thesis
    by (simp add: cancelDownload_def Let_def detachAndKill_signals detachAndKill_active)
qed

lemma cancelDownload_error_status:
  assumes "findItem (queue st) n = Some it" and "m \<noteq> []"
  shows "map_option (\<lambda>i. (status i, error i))
           (findItem (queue (cancelDownload st n FinalError (Some m))) n) = Some (Error, Some m)"
  using assms
  by (simp add: findItem_cancelDownload mergeItem_def cancelUpdates_def
      noUpdates_def orKeep_def orElse_def truthyStr_def)

section \<open>Error messages only in error states\<close>

lemma list_all_updateItem:
  assumes "list_all P q" and "\<And>i. findItem q n = Some i \<Longrightarrow> P (mergeItem i u)"
  shows "list_all P (fst (updateItem q n u))"
  using assms by (induction q) (auto split: if_splits)

lemma list_all_findItem: "list_all P q \<Longrightarrow> findItem q n = Some i \<Longrightarrow> P i"
  by (induction q) (auto split: if_splits)

lemma eof_queueUpdate:
  assumes "errorsOnlyOnFailed st"
    and "\<And>i. findItem (queue st) n = Some i \<Longrightarrow> errorOnlyWhenFailed (mergeItem i u)"
  shows "errorsOnlyOnFailed (queueUpdate st n u)"
  using assms by (simp add: errorsOnlyOnFailed_def queueUpdate_def list_all_updateItem)

lemma eof_queue: "queue a = queue b \<Longrightarrow> errorsOnlyOnFailed a = errorsOnlyOnFailed b"
  by (simp add: errorsOnlyOnFailed_def)

lemma eof_keep:
  assumes "errorsOnlyOnFailed st" and "u_status u = None" and "u_error u = None"
  shows "errorsOnlyOnFailed (queueUpdate st n u)"
proof (rule eof_queueUpdate [OF assms(1)])
  fix i assume "findItem (queue st) n = Some i"
  with assms(1) have "errorOnlyWhenFailed i"
    by (auto simp: errorsOnlyOnFailed_def dest: list_all_findItem)
  with assms(2,3) show "errorOnlyWhenFailed (mergeItem i u)"
    by (simp add: errorOnlyWhenFailed_def mergeItem_def orKeep_def)
qed

lemma eof_updateItemStatus:
  assumes "errorsOnlyOnFailed st" and "truthyStr e \<Longrightarrow> s = Error \<or> s = InstallError"
  shows "errorsOnlyOnFailed (updateItemStatus st n s p e sp et ep)"
proof -
  have "errorsOnlyOnFailed (queueUpdate st n (statusUpdates s p e sp et ep))"
  proof (rule eof_queueUpdate [OF assms(1)])
    fix i
    show "errorOnlyWhenFailed (mergeItem i (statusUpdates s p e sp et ep))"
      using assms(2)
      by (auto simp: errorOnlyWhenFailed_def mergeItem_def statusUpdates_def noUpdates_def orKeep_def)
  qed
  then show ?thesis
    by (simp add: updateItemStatus_def Let_def
        eof_queue [of "emitIf b x" x for b x])
qed

lemma eof_updateItemStatus_noerr:
  "errorsOnlyOnFailed st \<Longrightarrow> errorsOnlyOnFailed (updateItemStatus st n s p None sp et ep)"
  by (rule eof_updateItemStatus) (simp_all add: truthyStr_def)

lemma eof_updateItemStatus_Error:
  "errorsOnlyOnFailed st \<Longrightarrow> errorsOnlyOnFailed (updateItemStatus st n Error p e sp et ep)"
  by (rule eof_updateItemStatus) simp_all

lemma eof_detachAndKill: "errorsOnlyOnFailed (detachAndKill st n p) = errorsOnlyOnFailed st"
  by (simp add: errorsOnlyOnFailed_def)

lemma eof_stopProcessing: "errorsOnlyOnFailed (stopProcessing st n) = errorsOnlyOnFailed st"
  by (simp add: errorsOnlyOnFailed_def)

lemma eof_cancelDownload:
  assumes "errorsOnlyOnFailed st"
  shows "errorsOnlyOnFailed (cancelDownload st n fs msg)"
proof -
  define st1 where "st1 = (case activeDownloads st n of
                   Some p \<Rightarrow> if truthyNum (proc_pid p) then detachAndKill st n p else st
                 | None \<Rightarrow> st)"
  have q1: "queue st1 = queue st"
    by (simp add: st1_def split: option.splits)
  then have e1: "errorsOnlyOnFailed st1"
    using assms by (simp add: errorsOnlyOnFailed_def)
  show ?thesis
  proof (cases "findItem (queue st1) n")
    case None
    then show ?thesis
      using e1 by (simp add: cancelDownload_def st1_def [symmetric])
  next
    case (Some item)
    have "errorsOnlyOnFailed (queueUpdate st1 n (cancelUpdates item fs msg))"
    proof (rule eof_queueUpdate [OF e1])
      fix i assume "findItem (queue st1) n = Some i"
      with Some have "i = item" by simp
      then show "errorOnlyWhenFailed (mergeItem i (cancelUpdates item fs msg))"
        by (cases fs)
           (auto simp: errorOnlyWhenFailed_def mergeItem_def cancelUpdates_def noUpdates_def
              orKeep_def truthyStr_def)
    qed
    then show ?thesis
      using Some
      by (simp add: cancelDownload_def st1_def [symmetric] Let_def
          eof_queue [of "emitIf b x" x for b x])
  qed
qed

lemma eof_processLine:
  "errorsOnlyOnFailed st \<Longrightarrow> errorsOnlyOnFailed (processLine n cur st line)"
  by (cases "transferLineRegex line")
     (simp_all add: processLine_def Let_def eof_cancelDownload eof_updateItemStatus_noerr)

lemma eof_foldl_processLine:
  "errorsOnlyOnFailed st \<Longrightarrow> errorsOnlyOnFailed (foldl (processLine n cur) st ls)"
  by (induction ls arbitrary: st) (simp_all add: eof_processLine)

lemma eof_onData:
  "errorsOnlyOnFailed (fst sb) \<Longrightarrow> errorsOnlyOnFailed (fst (onData n sb chunk))"
  by (cases "findItem (queue (fst sb)) n")
     (simp_all add: onData_def Let_def eof_stopProcessing eof_foldl_processLine)

lemma eof_deliver:
  "errorsOnlyOnFailed (fst sb) \<Longrightarrow> errorsOnlyOnFailed (fst (deliver n sb chunk))"
  by (simp add: deliver_def eof_onData)

lemma eof_foldl_deliver:
  "errorsOnlyOnFailed (fst sb) \<Longrightarrow> errorsOnlyOnFailed (fst (foldl (deliver n) sb cs))"
  by (induction cs arbitrary: sb) (simp_all add: eof_deliver)

lemma eof_dropHandle:
  "errorsOnlyOnFailed (st\<lparr>activeDownloads := m\<rparr>) = errorsOnlyOnFailed st"
  by (simp add: errorsOnlyOnFailed_def)

lemma eof_cleanupHandle:
  "errorsOnlyOnFailed st \<Longrightarrow> errorsOnlyOnFailed (cleanupHandle st n)"
  by (cases "activeDownloads st n")
     (simp_all add: cleanupHandle_def eof_keep eof_dropHandle pidUndefined_def noUpdates_def)

lemma eof_afterAwait:
  "errorsOnlyOnFailed st \<Longrightarrow> errorsOnlyOnFailed (fst (afterAwait n st))"
  by (simp add: afterAwait_def Let_def eof_cleanupHandle eof_keep eof_dropHandle
      pidUndefined_def noUpdates_def)

lemma status_cleanupHandle:
  "map_option status (findItem (queue (cleanupHandle st n)) n)
     = map_option status (findItem (queue st) n)"
  by (cases "findItem (queue st) n"; cases "activeDownloads st n")
     (simp_all add: findItem_cleanupHandle mergeItem_def pidUndefined_def noUpdates_def orKeep_def)

lemma eof_recordError:
  assumes "errorsOnlyOnFailed st"
    and "map_option status (findItem (queue st) n) = map_option status cur"
  shows "errorsOnlyOnFailed (fst (recordError n st cur msg))"
proof (cases "map_option status cur = Some Error")
  case True
  have "errorsOnlyOnFailed (queueUpdate st n (noUpdates\<lparr>u_error := Some (Some msg)\<rparr>))"
  proof (rule eof_queueUpdate [OF assms(1)])
    fix i assume "findItem (queue st) n = Some i"
    with assms(2) True have "status i = Error" by auto
    then show "errorOnlyWhenFailed (mergeItem i (noUpdates\<lparr>u_error := Some (Some msg)\<rparr>))"
      by (simp add: errorOnlyWhenFailed_def mergeItem_def noUpdates_def orKeep_def)
  qed
  with True show ?thesis
    by (simp add: recordError_def Let_def eof_queue [of "emitIf b x" x for b x])
next
  case False
  with assms(1) show ?thesis
    by (auto simp: recordError_def Let_def eof_updateItemStatus_Error)
qed

lemma eof_catchBlock:
  assumes "errorsOnlyOnFailed st"
  shows "errorsOnlyOnFailed (fst (catchBlock n st err))"
proof -
  have c: "errorsOnlyOnFailed (cleanupHandle st n)"
    using assms by (rule eof_cleanupHandle)
  have r: "errorsOnlyOnFailed (fst (recordError n (cleanupHandle st n) (findItem (queue st) n) msg))"
    for msg
    by (rule eof_recordError [OF c]) (simp add: status_cleanupHandle)
  show ?thesis
    using c r
    by (cases err) (simp_all add: catchBlock_def Let_def eof_updateItemStatus_noerr)
qed

lemma eof_onSettled:
  "errorsOnlyOnFailed st \<Longrightarrow> errorsOnlyOnFailed (fst (onSettled n st s))"
  by (cases s) (simp_all add: onSettled_def eof_afterAwait eof_catchBlock)

lemma eof_effects: "errorsOnlyOnFailed (st\<lparr>effects := es\<rparr>) = errorsOnlyOnFailed st"
  by (simp add: errorsOnlyOnFailed_def)

lemma eof_attach:
  "errorsOnlyOnFailed (st\<lparr>activeDownloads := m, listening := l\<rparr>) = errorsOnlyOnFailed st"
  by (simp add: errorsOnlyOnFailed_def)

lemma eof_startBegin:
  assumes "errorsOnlyOnFailed st"
  shows "errorsOnlyOnFailed (startedProcessor (startBegin env st item))"
proof -
  have k: "errorsOnlyOnFailed (queueUpdate st n (noUpdates\<lparr>u_downloadPath := Some v\<rparr>))" for n v
    using assms by (rule eof_keep) (simp_all add: noUpdates_def)
  have d: "errorsOnlyOnFailed (updateItemStatus
      (queueUpdate st n (noUpdates\<lparr>u_downloadPath := Some v\<rparr>)) n Downloading 0 None None None None)"
    for n v
    using k by (rule eof_updateItemStatus_noerr)
  have p: "errorsOnlyOnFailed (queueUpdate
      ((updateItemStatus (queueUpdate st n (noUpdates\<lparr>u_downloadPath := Some v\<rparr>)) n
          Downloading 0 None None None None)\<lparr>effects := es, activeDownloads := m, listening := l\<rparr>)
      n (noUpdates\<lparr>u_pid := Some w\<rparr>))" for n v es m l w
    by (rule eof_keep) (use d in \<open>simp_all add: noUpdates_def errorsOnlyOnFailed_def\<close>)
  show ?thesis
    using assms k d p
    by (simp add: startBegin_def Let_def eof_updateItemStatus_Error eof_effects
        split: option.splits)
qed

lemma eof_startDownload:
  assumes "errorsOnlyOnFailed st"
  shows "errorsOnlyOnFailed (fst (startDownload env st item chunks t))"
proof -
  have b: "errorsOnlyOnFailed (startedProcessor (startBegin env st item))"
    using assms by (rule eof_startBegin)
  show ?thesis
  proof (cases "startBegin env st item")
    case (Returned st' r)
    with b show ?thesis by (simp add: startDownload_def)
  next
    case (Running st')
    with b have "errorsOnlyOnFailed (fst (st', []::string))" by simp
    then have "errorsOnlyOnFailed (fst (foldl (deliver (releaseName item)) (st', []) chunks))"
      by (rule eof_foldl_deliver)
    then show ?thesis
      using Running by (simp add: startDownload_def eof_onSettled)
  next
    case (StartFailed st')
    with b show ?thesis by (simp add: startDownload_def eof_catchBlock)
  qed
qed

section \<open>The extraction when the awaited promise resolves\<close>

lemma execaAwait_resolved: "execaAwait t = Resolved r \<Longrightarrow> exitCode r = Some 0"
  by (simp add: execaAwait_def split: if_splits)

lemma extractBody_resolved_wrong_password:
  assumes "get7zPath platform locate = Inr path" and "exitCode r \<noteq> Some 0"
    and "wrongPassword (foldl onOutput extractionStart outputs)"
  shows "passwordCatch (extractBody platform locate outputs (Resolved r))
           = Inl (''Failed to use password: '' @ wrongPasswordMsg)"
  using assms by (simp add: extractBody_def passwordCatch_def thrownText_def Let_def)

section \<open>The remote source of a release\<close>

lemma length_bytesLE [simp]: "length (bytesLE k w) = k"
  by (simp add: bytesLE_def)

lemma length_md5Digest: "length (md5Digest s) = 16"
  by (simp add: md5Digest_def Let_def split: prod.splits)

lemma hexDigit_lower: "hexDigit k \<in> set ''0123456789abcdef''"
proof -
  have "k mod 16 < length ''0123456789abcdef''" by simp
  then show ?thesis unfolding hexDigit_def by (rule nth_mem)
qed

lemma digestHex_lower: "set (digestHex bs) \<subseteq> set ''0123456789abcdef''"
  using hexDigit_lower by (induction bs) (auto simp: digestHex_def hexByte_def)

lemma length_digestHex: "length (digestHex bs) = 2 * length bs"
  by (induction bs) (auto simp: digestHex_def hexByte_def)

text \<open>
  C1. For every release name, the remote object identifier \<open>startDownload\<close> computes is
  the lowercase hexadecimal MD5 digest (32 digits) of the bytes of the release name
  followed by one newline, and the transfer subprocess is spawned with the arguments
  \<open>copy :http:/<objectId> <downloadPath> --http-url <baseUri> ...\<close>. The hypotheses are
  the checks \<open>startDownload\<close> makes before it spawns anything: the configuration is
  complete, the tool's path is known and the download directory could be created.
\<close>

theorem startDownload_remote_source:
  assumes "vrpConfig st = Some cfg" and "baseUri cfg = Some uri" and "uri \<noteq> []"
    and "truthyStr (password cfg)"
    and "getRclonePath env \<noteq> []"
    and "mkdir env (pathJoin env (downloadsDir st) (releaseName item)) = None"
  shows "gameNameHash (releaseName item) = digestHex (md5Digest (releaseName item @ [LF]))
    \<and> length (gameNameHash (releaseName item)) = 32
    \<and> set (gameNameHash (releaseName item)) \<subseteq> set ''0123456789abcdef''
    \<and> spawnsOf (effects (startedProcessor (startBegin env st item)))
        = spawnsOf (effects st) @
          [(getRclonePath env,
            [''copy'', '':http:/'' @ gameNameHash (releaseName item),
             pathJoin env (downloadsDir st) (releaseName item),
             ''--http-url'', uri, ''--no-check-certificate'', ''--progress'',
             ''--stats=1s'', ''--stats-one-line''])]"
proof -
  have a: "gameNameHash (releaseName item) = digestHex (md5Digest (releaseName item @ [LF]))"
    by (simp add: gameNameHash_def)
  have b: "length (gameNameHash (releaseName item)) = 32"
    by (simp add: gameNameHash_def length_digestHex length_md5Digest)
  have c: "set (gameNameHash (releaseName item)) \<subseteq> set ''0123456789abcdef''"
    unfolding gameNameHash_def by (rule digestHex_lower)
  have "spawnsOf (effects (startedProcessor (startBegin env st item)))
        = spawnsOf (effects st) @
          [(getRclonePath env,
            rcloneArgs ('':http:/'' @ gameNameHash (releaseName item))
              (pathJoin env (downloadsDir st) (releaseName item)) uri)]"
    using configuredBaseUri_Some [OF assms(1-4)] assms(5,6)
    by (simp add: startBegin_def Let_def spawnsOf_append)
  then have d: "spawnsOf (effects (startedProcessor (startBegin env st item)))
        = spawnsOf (effects st) @
          [(getRclonePath env,
            [''copy'', '':http:/'' @ gameNameHash (releaseName item),
             pathJoin env (downloadsDir st) (releaseName item),
             ''--http-url'', uri, ''--no-check-certificate'', ''--progress'',
             ''--stats=1s'', ''--stats-one-line''])]"
    by (simp add: rcloneArgs_def)
  from a b c d show ?thesis by blast
qed

lemma gameNameHash_g: "gameNameHash ''g'' = ''f5302386464f953ed581edac03556e55''"
  by code_simp

theorem startDownload_remote_source_witness:
  "vrpConfig (idleProcessor (Some sampleConfig) [sampleItem Queued 0 None]) = Some sampleConfig
   \<and> baseUri sampleConfig = Some ''https://host/''
   \<and> truthyStr (password sampleConfig)
   \<and> gameNameHash ''g'' = ''f5302386464f953ed581edac03556e55''
   \<and> spawnsOf (effects (startedProcessor (startBegin sampleEnv
        (idleProcessor (Some sampleConfig) [sampleItem Queued 0 None]) (sampleItem Queued 0 None))))
     = [(''/bin/rclone'',
         [''copy'', '':http:/f5302386464f953ed581edac03556e55'', ''/dl/g'', ''--http-url'',
          ''https://host/'', ''--no-check-certificate'', ''--progress'', ''--stats=1s'',
          ''--stats-one-line''])]"
proof -
  have h1: "vrpConfig (idleProcessor (Some sampleConfig) [sampleItem Queued 0 None])
              = Some sampleConfig"
    by (simp add: idleProcessor_def)
  have h2: "baseUri sampleConfig = Some ''https://host/''" by (simp add: sampleConfig_def)
  have h3: "''https://host/'' \<noteq> []" by simp
  have h4: "truthyStr (password sampleConfig)" by (simp add: sampleConfig_def truthyStr_def)
  have h5: "getRclonePath sampleEnv \<noteq> []" by (simp add: sampleEnv_def)
  have h6: "mkdir sampleEnv (pathJoin sampleEnv
      (downloadsDir (idleProcessor (Some sampleConfig) [sampleItem Queued 0 None]))
      (releaseName (sampleItem Queued 0 None))) = None"
    by (simp add: sampleEnv_def)
  show ?thesis
    using h1 h2 h4 startDownload_remote_source [OF h1 h2 h3 h4 h5 h6]
    by (simp add: gameNameHash_g sampleItem_def sampleEnv_def idleProcessor_def)
qed

section \<open>Progress within a data event\<close>

text \<open>
  C2 (the code departs from the claim). The claim: during a run of the transfer stage a
  progress update is emitted only when the parsed percentage is at least the item's last
  recorded progress, so the recorded values never decrease. The handler compares every
  line of a data event with \<open>currentItemState\<close>, the item as it was when the event began.
  With the item at 0 percent, one data event that carries a 50 percent line followed by a
  20 percent line runs the loop over both lines, records 50 after the first and 20 after
  the second.
\<close>

theorem progress_regresses_within_data_event:
  "observed (downloadingProcessor 0) ''g'' = Some (Downloading, 0, None)
   \<and> fst (onData ''g'' (downloadingProcessor 0, []) (line50 @ [LF] @ line20 @ [LF]))
       = foldl (processLine ''g'' (downloadingItem 0)) (downloadingProcessor 0) [line50, line20]
   \<and> observed (processLine ''g'' (downloadingItem 0) (downloadingProcessor 0) line50) ''g''
       = Some (Downloading, 50, None)
   \<and> observed (fst (onData ''g'' (downloadingProcessor 0, []) (line50 @ [LF] @ line20 @ [LF]))) ''g''
       = Some (Downloading, 20, None)"
proof -
  have a: "observed (downloadingProcessor 0) ''g'' = Some (Downloading, 0, None)"
    by code_simp
  have b: "fst (onData ''g'' (downloadingProcessor 0, []) (line50 @ [LF] @ line20 @ [LF]))
       = foldl (processLine ''g'' (downloadingItem 0)) (downloadingProcessor 0) [line50, line20]"
    by (simp add: onData_def downloadingProcessor_def downloadingItem_def sampleItem_def
        nonEmptyLines_def line50_def line20_def LF_def CR_def linesToProcess_def
        lastLineComplete_def isSome_def transferLineRegex_def etaRegex_def transferAt_def
        etaAt_def startsWith_def isDigit_def isSpace_def)
  have c: "observed (processLine ''g'' (downloadingItem 0) (downloadingProcessor 0) line50) ''g''
       = Some (Downloading, 50, None)"
    by code_simp
  have d: "observed (fst (onData ''g'' (downloadingProcessor 0, []) (line50 @ [LF] @ line20 @ [LF]))) ''g''
       = Some (Downloading, 20, None)"
    by code_simp
  from a b c d show ?thesis by blast
qed

text \<open>
  X1. What does hold of the progress of a run: whatever data events arrive, in whatever
  pieces, the item stays in the queue and the progress recorded when an event has been
  handled is never below the progress recorded before the events.
\<close>

theorem progress_between_data_events:
  assumes "findItem (queue st) n = Some it"
  shows "progressAtLeast (progress it) n (fst (foldl (deliver n) (st, buf) chunks))"
proof -
  have "progressAtLeast p n (fst sb) \<Longrightarrow> progressAtLeast p n (fst (foldl (deliver n) sb chunks))"
    for p sb
    by (induction chunks arbitrary: sb) (simp_all add: progressAtLeast_deliver)
  moreover have "progressAtLeast (progress it) n (fst (st, buf))"
    using assms by (simp add: progressAtLeast_def)
  ultimately show ?thesis by blast
qed

theorem progress_between_data_events_witness:
  "findItem (queue (downloadingProcessor 10)) ''g'' = Some (downloadingItem 10)
   \<and> progressAtLeast 10 ''g'' (fst (foldl (deliver ''g'') (downloadingProcessor 10, [])
        [line50 @ [LF] @ line20 @ [LF], line20 @ [LF]]))"
proof -
  have h: "findItem (queue (downloadingProcessor 10)) ''g'' = Some (downloadingItem 10)"
    by (simp add: downloadingProcessor_def downloadingItem_def sampleItem_def)
  have p: "progress (downloadingItem 10) = 10" by (simp add: downloadingItem_def sampleItem_def)
  show ?thesis
    using h progress_between_data_events [OF h, of "[]" "[line50 @ [LF] @ line20 @ [LF], line20 @ [LF]]"]
    by (simp add: p)
qed

section \<open>Cancellation\<close>

text \<open>
  C3. When the download of an item is cancelled while its status is \<open>Downloading\<close>, the
  item has status \<open>Cancelled\<close>, progress 0 and no error; every later data event of that
  run finds the status changed and leaves the queue as it is, whatever the buffer holds
  and whatever arrives, and so does the end of the process, however it ends; the call
  does not report success.
\<close>

theorem cancel_while_downloading:
  assumes "findItem (queue st) n = Some it" and "status it = Downloading"
  shows "findItem (queue (cancelDownload st n FinalCancelled None)) n
           = Some (it\<lparr>status := Cancelled, progress := 0, error := None, pid := None\<rparr>)
       \<and> queue (fst (foldl (onData n) (cancelDownload st n FinalCancelled None, buf) chunks))
           = queue (cancelDownload st n FinalCancelled None)
       \<and> queue (fst (onSettled n
                  (fst (foldl (onData n) (cancelDownload st n FinalCancelled None, buf) chunks)) s))
           = queue (cancelDownload st n FinalCancelled None)
       \<and> \<not> success (snd (onSettled n
                  (fst (foldl (onData n) (cancelDownload st n FinalCancelled None, buf) chunks)) s))"
proof -
  define st1 where "st1 = cancelDownload st n FinalCancelled None"
  define it1 where "it1 = it\<lparr>status := Cancelled, progress := 0, error := None, pid := None\<rparr>"
  have f1: "findItem (queue st1) n = Some it1"
    using assms unfolding st1_def it1_def
    by (simp add: findItem_cancelDownload cancelUpdates_def mergeItem_def noUpdates_def orKeep_def)
  have nd: "map_option status (findItem (queue (fst (st1, buf))) n) \<noteq> Some Downloading"
    using f1 by (simp add: it1_def)
  have q2: "queue (fst (foldl (onData n) (st1, buf) chunks)) = queue st1"
    using foldl_onData_not_downloading [OF nd] by simp
  have f2: "findItem (queue (fst (foldl (onData n) (st1, buf) chunks))) n = Some it1"
    using q2 f1 by simp
  have "queue (fst (onSettled n (fst (foldl (onData n) (st1, buf) chunks)) s))
          = queue (fst (foldl (onData n) (st1, buf) chunks))
        \<and> snd (onSettled n (fst (foldl (onData n) (st1, buf) chunks)) s) = failed (Some it1)"
    by (rule onSettled_cancelled [OF f2]) (simp_all add: it1_def)
  with q2 f1 show ?thesis
    unfolding st1_def it1_def by (simp add: failed_def)
qed

theorem cancel_while_downloading_witness:
  "findItem (queue (downloadingProcessor 40)) ''g'' = Some (downloadingItem 40)
   \<and> status (downloadingItem 40) = Downloading
   \<and> observed (fst (onSettled ''g''
        (fst (foldl (onData ''g'') (cancelDownload (downloadingProcessor 40) ''g'' FinalCancelled None, [])
               [line50 @ [LF]]))
        (execaAwait (exited 143)))) ''g'' = Some (Cancelled, 0, None)"
proof -
  have h1: "findItem (queue (downloadingProcessor 40)) ''g'' = Some (downloadingItem 40)"
    by (simp add: downloadingProcessor_def downloadingItem_def sampleItem_def)
  have h2: "status (downloadingItem 40) = Downloading"
    by (simp add: downloadingItem_def sampleItem_def)
  show ?thesis
    using h1 h2 cancel_while_downloading [OF h1 h2, of "[]" "[line50 @ [LF]]" "execaAwait (exited 143)"]
    by (simp add: observed_def)
qed

section \<open>Authentication failures\<close>

text \<open>
  C4 (the code departs from the claim). The claim: every output line that contains an
  authentication-failure substring makes the driver cancel the item at once, with status
  \<open>Error\<close> and a message about the credentials. When such a line is the last one of a data
  event it is held back as a partial line: the item stays \<open>Downloading\<close>, no signal is
  sent, and when the process then exits with code 1 the item gets the generic failure
  message. When a progress line follows the authentication line in the same data event,
  the item is put back to \<open>Downloading\<close> without an error, and stays so when the process
  ends with the expected code 143.
\<close>

theorem auth_failure_not_classified:
  "observed (fst (foldl (deliver ''g'') (downloadingProcessor 0, []) [authLine @ [LF]])) ''g''
       = Some (Downloading, 0, None)
   \<and> signalsOf (effects (fst (foldl (deliver ''g'') (downloadingProcessor 0, []) [authLine @ [LF]]))) = []
   \<and> observed (fst (onSettled ''g''
        (fst (foldl (deliver ''g'') (downloadingProcessor 0, []) [authLine @ [LF]]))
        (execaAwait (exited 1)))) ''g''
       = Some (Error, 0, Some ''Command failed with exit code 1'')
   \<and> observed (fst (foldl (deliver ''g'') (downloadingProcessor 0, [])
        [authLine @ [LF] @ line50 @ [LF]])) ''g''
       = Some (Downloading, 50, None)
   \<and> observed (fst (onSettled ''g''
        (fst (foldl (deliver ''g'') (downloadingProcessor 0, []) [authLine @ [LF] @ line50 @ [LF]]))
        (execaAwait (exited 143)))) ''g''
       = Some (Downloading, 50, None)"
proof -
  have a: "observed (fst (foldl (deliver ''g'') (downloadingProcessor 0, []) [authLine @ [LF]])) ''g''
       = Some (Downloading, 0, None)"
    by code_simp
  have b: "signalsOf (effects (fst (foldl (deliver ''g'') (downloadingProcessor 0, []) [authLine @ [LF]]))) = []"
    by code_simp
  have c: "observed (fst (onSettled ''g''
        (fst (foldl (deliver ''g'') (downloadingProcessor 0, []) [authLine @ [LF]]))
        (execaAwait (exited 1)))) ''g''
       = Some (Error, 0, Some ''Command failed with exit code 1'')"
    by code_simp
  have d: "observed (fst (foldl (deliver ''g'') (downloadingProcessor 0, [])
        [authLine @ [LF] @ line50 @ [LF]])) ''g''
       = Some (Downloading, 50, None)"
    by code_simp
  have e: "observed (fst (onSettled ''g''
        (fst (foldl (deliver ''g'') (downloadingProcessor 0, []) [authLine @ [LF] @ line50 @ [LF]]))
        (execaAwait (exited 143)))) ''g''
       = Some (Downloading, 50, None)"
    by code_simp
  from a b c d e show ?thesis by blast
qed

text \<open>
  X2. What does hold of authentication failures: every line that the handler's loop
  processes and that contains one of the two substrings leaves the item in \<open>Error\<close> with
  the credential message, sends the termination signal to the tracked process and forgets
  its handle, before the process has exited.
\<close>

theorem processed_auth_line_cancels:
  assumes "authFailureLine line" and "findItem (queue st) n = Some it"
    and "activeDownloads st n = Some p" and "truthyNum (proc_pid p)"
  shows "map_option (\<lambda>i. (status i, error i)) (findItem (queue (processLine n cur st line)) n)
           = Some (Error, Some authFailedMsg)
       \<and> signalsOf (effects (processLine n cur st line)) = signalsOf (effects st) @ [n]
       \<and> activeDownloads (processLine n cur st line) n = None"
proof -
  define st1 where "st1 =
    (case transferLineRegex line of
       Some ds \<Rightarrow>
         (if parseInt ds \<ge> progress cur then
            updateItemStatus st n Downloading (parseInt ds) None
              (orElse (speedRegex line) (speed cur)) (orElse (etaRegex line) (eta cur)) None
          else st)
     | None \<Rightarrow> st)"
  have pl: "processLine n cur st line = cancelDownload st1 n FinalError (Some authFailedMsg)"
    using assms(1) by (simp add: processLine_def st1_def Let_def split: option.splits)
  have act: "activeDownloads st1 n = Some p"
    using assms(3) by (simp add: st1_def split: option.splits)
  have sig: "signalsOf (effects st1) = signalsOf (effects st)"
    by (simp add: st1_def split: option.splits)
  have "findItem (queue st1) n \<noteq> None"
    using assms(2)
    by (cases "transferLineRegex line") (simp_all add: st1_def findItem_updateItemStatus)
  then obtain it1 where it1: "findItem (queue st1) n = Some it1"
    by blast
  have a: "map_option (\<lambda>i. (status i, error i))
      (findItem (queue (cancelDownload st1 n FinalError (Some authFailedMsg))) n)
        = Some (Error, Some authFailedMsg)"
    by (rule cancelDownload_error_status [OF it1]) (simp add: authFailedMsg_def)
  note t = cancelDownload_tracked [OF act assms(4), of FinalError "Some authFailedMsg"]
  show ?thesis
    unfolding pl using a t sig by (simp only: simp_thms)
qed

theorem processed_auth_line_cancels_witness:
  "authFailureLine authLine
   \<and> findItem (queue (downloadingProcessor 10)) ''g'' = Some (downloadingItem 10)
   \<and> activeDownloads (downloadingProcessor 10) ''g'' = Some sampleProcess
   \<and> truthyNum (proc_pid sampleProcess)
   \<and> map_option (\<lambda>i. (status i, error i))
        (findItem (queue (processLine ''g'' (downloadingItem 10) (downloadingProcessor 10) authLine)) ''g'')
       = Some (Error, Some ''Auth failed (check VRP password?)'')
   \<and> signalsOf (effects (processLine ''g'' (downloadingItem 10) (downloadingProcessor 10) authLine))
       = [''g'']"
proof -
  have h1: "authFailureLine authLine" by code_simp
  have h2: "findItem (queue (downloadingProcessor 10)) ''g'' = Some (downloadingItem 10)"
    by (simp add: downloadingProcessor_def downloadingItem_def sampleItem_def)
  have h3: "activeDownloads (downloadingProcessor 10) ''g'' = Some sampleProcess"
    by (simp add: downloadingProcessor_def)
  have h4: "truthyNum (proc_pid sampleProcess)"
    by (simp add: sampleProcess_def truthyNum_def)
  have e: "signalsOf (effects (downloadingProcessor 10)) = []"
    by (simp add: downloadingProcessor_def)
  note w = processed_auth_line_cancels [OF h1 h2 h3 h4, of "downloadingItem 10"]
  from w have a: "map_option (\<lambda>i. (status i, error i))
        (findItem (queue (processLine ''g'' (downloadingItem 10) (downloadingProcessor 10) authLine)) ''g'')
       = Some (Error, Some ''Auth failed (check VRP password?)'')"
    by (simp only: authFailedMsg_def)
  from w e have b: "signalsOf (effects (processLine ''g'' (downloadingItem 10) (downloadingProcessor 10) authLine))
       = [''g'']"
    by simp
  show ?thesis by (intro conjI h1 h2 h3 h4 a b)
qed

section \<open>The end of the transfer process\<close>

text \<open>
  C5 (the code departs from the claim). The claim: when the transfer process ends while
  the item is still \<open>Downloading\<close>, exit code 143 records no new error, any other
  non-zero exit sets the item to \<open>Error\<close> with the last several lines of the output
  appended as diagnostic, and exit code 0 yields success. The \<open>catch\<close> block does append
  the last five lines of \<open>error.all\<close>, \<open>error.stderr\<close> or \<open>error.stdout\<close>, but the process
  is started with \<open>buffer: false\<close>, so all three are undefined. A transfer that prints a
  progress line and an error line and exits with code 1 leaves the item in \<open>Error\<close> at 50
  percent with the short message alone; no line of the output is in it.
\<close>

theorem transfer_failure_without_output_tail:
  "observed (fst (startDownload sampleEnv (idleProcessor (Some sampleConfig) [sampleItem Queued 0 None])
                   (sampleItem Queued 0 None) [line50 @ [LF], failLine @ [LF]] (exited 1))) ''g''
       = Some (Error, 50, Some ''Command failed with exit code 1'')
   \<and> execaErrorMessage (unbuffered (exited 1)) = ''Command failed with exit code 1''
   \<and> outputTail (unbuffered (exited 1)) = []"
proof -
  have a: "observed (fst (startDownload sampleEnv (idleProcessor (Some sampleConfig) [sampleItem Queued 0 None])
                   (sampleItem Queued 0 None) [line50 @ [LF], failLine @ [LF]] (exited 1))) ''g''
       = Some (Error, 50, Some ''Command failed with exit code 1'')"
    by code_simp
  have b: "execaErrorMessage (unbuffered (exited 1)) = ''Command failed with exit code 1''"
    by code_simp
  have c: "outputTail (unbuffered (exited 1)) = []"
    by (rule outputTail_unbuffered)
  show ?thesis by (intro conjI a b c)
qed

text \<open>
  X4. What does hold when the transfer process ends while the item is still
  \<open>Downloading\<close>: exit code 143 leaves status, progress and error of the item as they are
  and reports no success; any other outcome than exit code 0 (that \<open>execa\<close> does not flag
  as cancelled) sets the item to \<open>Error\<close>, keeps its progress and stores the short message
  (or, when that is empty, the message) cut to 500 characters, for a message in ASCII;
  exit code 0 returns success with \<open>startExtraction\<close> set and leaves the item
  \<open>Downloading\<close> for the extraction stage.
\<close>

theorem transfer_exit_outcomes:
  assumes "findItem (queue st) n = Some it" and "status it = Downloading"
  shows "(exitCode t = Some 143 \<longrightarrow>
            observed (fst (onSettled n st (execaAwait (unbuffered t)))) n
              = Some (Downloading, progress it, error it)
          \<and> \<not> success (snd (onSettled n st (execaAwait (unbuffered t))))
          \<and> \<not> startExtraction (snd (onSettled n st (execaAwait (unbuffered t)))))
       \<and> (exitCode t \<noteq> Some 143 \<and> exitCode t \<noteq> Some 0 \<and> \<not> isCanceled t
            \<and> asciiText (if shortMessage t \<noteq> [] then shortMessage t else message t) \<longrightarrow>
            observed (fst (onSettled n st (execaAwait (unbuffered t)))) n
              = Some (Error, progress it,
                  Some (take 500 (if shortMessage t \<noteq> [] then shortMessage t else message t)))
          \<and> \<not> success (snd (onSettled n st (execaAwait (unbuffered t))))
          \<and> \<not> startExtraction (snd (onSettled n st (execaAwait (unbuffered t)))))
       \<and> (exitCode t = Some 0 \<and> \<not> isCanceled t \<longrightarrow>
            snd (onSettled n st (execaAwait (unbuffered t)))
              = \<lparr>success = True, startExtraction = True, finalState = Some it\<rparr>
          \<and> observed (fst (onSettled n st (execaAwait (unbuffered t)))) n
              = Some (Downloading, progress it, error it))"
proof -
  have obs: "observed st n = Some (Downloading, progress it, error it)"
    using assms by (simp add: observed_def)
  have u: "exitCode (unbuffered t) = exitCode t" "isCanceled (unbuffered t) = isCanceled t"
    by (simp_all add: unbuffered_def)
  have a: "exitCode t = Some 143 \<Longrightarrow>
            observed (fst (onSettled n st (execaAwait (unbuffered t)))) n
              = Some (Downloading, progress it, error it)
          \<and> \<not> success (snd (onSettled n st (execaAwait (unbuffered t))))
          \<and> \<not> startExtraction (snd (onSettled n st (execaAwait (unbuffered t))))"
    using obs by (simp add: onSettled_def execaAwait_def catchBlock_def Let_def u
        observed_cleanupHandle failed_def)
  have b: "exitCode t \<noteq> Some 143 \<and> exitCode t \<noteq> Some 0 \<and> \<not> isCanceled t \<Longrightarrow>
            observed (fst (onSettled n st (execaAwait (unbuffered t)))) n
              = Some (Error, progress it,
                  Some (take 500 (if shortMessage t \<noteq> [] then shortMessage t else message t)))
          \<and> \<not> success (snd (onSettled n st (execaAwait (unbuffered t))))
          \<and> \<not> startExtraction (snd (onSettled n st (execaAwait (unbuffered t))))"
    using obs assms
    by (simp add: onSettled_def execaAwait_def catchBlock_def recordError_def Let_def u
        observed_updateItemStatus observed_cleanupHandle failed_def progressOr0_def
        execaErrorMessage_unbuffered substring0_def)
  have c: "exitCode t = Some 0 \<and> \<not> isCanceled t \<Longrightarrow>
            snd (onSettled n st (execaAwait (unbuffered t)))
              = \<lparr>success = True, startExtraction = True, finalState = Some it\<rparr>
          \<and> observed (fst (onSettled n st (execaAwait (unbuffered t)))) n
              = Some (Downloading, progress it, error it)"
    using obs assms
    by (simp add: onSettled_def execaAwait_def afterAwait_def Let_def u observed_queueUpdate_pid
        observed_cong_queue [of "st\<lparr>activeDownloads := (activeDownloads st)(n := None)\<rparr>" st]
        observed_def findItem_queueUpdate mergeItem_def pidUndefined_def noUpdates_def orKeep_def)
  from a b c show ?thesis by blast
qed

theorem transfer_exit_outcomes_witness:
  "findItem (queue (downloadingProcessor 40)) ''g'' = Some (downloadingItem 40)
   \<and> status (downloadingItem 40) = Downloading
   \<and> asciiText (shortMessage (exited 1))
   \<and> observed (fst (onSettled ''g'' (downloadingProcessor 40)
        (execaAwait (unbuffered (exited 143))))) ''g''
       = Some (Downloading, 40, None)
   \<and> observed (fst (onSettled ''g'' (downloadingProcessor 40)
        (execaAwait (unbuffered (exited 1))))) ''g''
       = Some (Error, 40, Some ''Command failed with exit code 1'')
   \<and> snd (onSettled ''g'' (downloadingProcessor 40) (execaAwait (unbuffered (exited 0))))
       = \<lparr>success = True, startExtraction = True, finalState = Some (downloadingItem 40)\<rparr>"
proof -
  have h1: "findItem (queue (downloadingProcessor 40)) ''g'' = Some (downloadingItem 40)"
    by (simp add: downloadingProcessor_def downloadingItem_def sampleItem_def)
  have h2: "status (downloadingItem 40) = Downloading"
    by (simp add: downloadingItem_def sampleItem_def)
  have p: "progress (downloadingItem 40) = 40" "error (downloadingItem 40) = None"
    by (simp_all add: downloadingItem_def sampleItem_def)
  have sm: "shortMessage (exited 1) = ''Command failed with exit code 1''"
    by (simp add: exited_def decimalDigit_def)
  have as: "asciiText (shortMessage (exited 1))"
    unfolding sm by (simp add: asciiText_def)
  have e143: "exitCode (exited 143) = Some 143" by (simp add: exited_def)
  have e1: "exitCode (exited 1) \<noteq> Some 143 \<and> exitCode (exited 1) \<noteq> Some 0
            \<and> \<not> isCanceled (exited 1)
            \<and> asciiText (if shortMessage (exited 1) \<noteq> [] then shortMessage (exited 1)
                          else message (exited 1))"
    using as by (simp add: exited_def)
  have e0: "exitCode (exited 0) = Some 0 \<and> \<not> isCanceled (exited 0)" by (simp add: exited_def)
  note w = transfer_exit_outcomes [OF h1 h2]
  have r143: "observed (fst (onSettled ''g'' (downloadingProcessor 40)
        (execaAwait (unbuffered (exited 143))))) ''g'' = Some (Downloading, 40, None)"
    using w [of "exited 143"] e143 by (simp add: p)
  have r1: "observed (fst (onSettled ''g'' (downloadingProcessor 40)
        (execaAwait (unbuffered (exited 1))))) ''g''
       = Some (Error, 40, Some ''Command failed with exit code 1'')"
  proof -
    from w [of "exited 1"] e1
    have "observed (fst (onSettled ''g'' (downloadingProcessor 40)
        (execaAwait (unbuffered (exited 1))))) ''g''
       = Some (Error, progress (downloadingItem 40),
           Some (take 500 (if shortMessage (exited 1) \<noteq> [] then shortMessage (exited 1)
                           else message (exited 1))))"
      by blast
    then show ?thesis unfolding sm p by simp
  qed
  have r0: "snd (onSettled ''g'' (downloadingProcessor 40) (execaAwait (unbuffered (exited 0))))
       = \<lparr>success = True, startExtraction = True, finalState = Some (downloadingItem 40)\<rparr>"
    using w [of "exited 0"] e0 by simp
  show ?thesis by (intro conjI h1 h2 as r143 r1 r0)
qed

section \<open>Wrong archive password\<close>


section \<open>Output split across data events\<close>

text \<open>
  C7 (the code departs from the claim). The claim: however the output is split across
  data events, the parsed progress events are those of the unsplit output and no
  truncated token is parsed. A last line that already matches the percentage and the ETA
  pattern is parsed although it is cut inside the ETA (\<open>1m\<close> for \<open>1m30s\<close>); a last line
  that does not match is kept without its line terminator, so the next event's first line
  is glued to it and its 60 percent is never parsed.
\<close>

theorem split_output_parsed_differently:
  "rate (fst (foldl (deliver ''g'') (downloadingProcessor 0, [])
        [''5 MiB / 10 MiB, 50%, 1.0 MiB/s, ETA 1m30s\<newline>''])) ''g''
     = Some (50, Some ''1.0 MiB/s'', Some ''1m30s'')
   \<and> rate (fst (foldl (deliver ''g'') (downloadingProcessor 0, [])
        [''5 MiB / 10 MiB, 50%, 1.0 MiB/s, ETA 1m'', ''30s\<newline>''])) ''g''
     = Some (50, Some ''1.0 MiB/s'', Some ''1m'')
   \<and> rate (fst (foldl (deliver ''g'') (downloadingProcessor 0, [])
        [''NOTICE: 1 file, 50%, checked\<newline>6 MiB / 10 MiB, 60%, 1.0 MiB/s, ETA 4s\<newline>''])) ''g''
     = Some (60, Some ''1.0 MiB/s'', Some ''4s'')
   \<and> rate (fst (foldl (deliver ''g'') (downloadingProcessor 0, [])
        [''NOTICE: 1 file, 50%, checked\<newline>'', ''6 MiB / 10 MiB, 60%, 1.0 MiB/s, ETA 4s\<newline>''])) ''g''
     = Some (50, Some ''1.0 MiB/s'', Some ''4s'')"
proof -
  have a: "rate (fst (foldl (deliver ''g'') (downloadingProcessor 0, [])
        [''5 MiB / 10 MiB, 50%, 1.0 MiB/s, ETA 1m30s\<newline>''])) ''g''
     = Some (50, Some ''1.0 MiB/s'', Some ''1m30s'')"
    by code_simp
  have b: "rate (fst (foldl (deliver ''g'') (downloadingProcessor 0, [])
        [''5 MiB / 10 MiB, 50%, 1.0 MiB/s, ETA 1m'', ''30s\<newline>''])) ''g''
     = Some (50, Some ''1.0 MiB/s'', Some ''1m'')"
    by code_simp
  have c: "rate (fst (foldl (deliver ''g'') (downloadingProcessor 0, [])
        [''NOTICE: 1 file, 50%, checked\<newline>6 MiB / 10 MiB, 60%, 1.0 MiB/s, ETA 4s\<newline>''])) ''g''
     = Some (60, Some ''1.0 MiB/s'', Some ''4s'')"
    by code_simp
  have d: "rate (fst (foldl (deliver ''g'') (downloadingProcessor 0, [])
        [''NOTICE: 1 file, 50%, checked\<newline>'', ''6 MiB / 10 MiB, 60%, 1.0 MiB/s, ETA 4s\<newline>''])) ''g''
     = Some (50, Some ''1.0 MiB/s'', Some ''4s'')"
    by code_simp
  from a b c d show ?thesis by blast
qed

section \<open>Error message and status\<close>

text \<open>
  C8 (the code departs from the claim). The claim: in every state the driver's operations
  produce, an item has a non-empty error exactly when its status is \<open>Error\<close> or
  \<open>InstallError\<close>. \<open>startDownload\<close> without a configuration leaves the item in \<open>Error\<close>
  with a message; \<open>cancelDownload\<close> with its default final status then keeps the status
  \<open>Error\<close> and clears the message.
\<close>

theorem cancel_after_error_clears_message:
  "observed (fst (startDownload sampleEnv (idleProcessor None [sampleItem Queued 0 None])
                   (sampleItem Queued 0 None) [] (exited 0))) ''g''
       = Some (Error, 0, Some ''Missing VRP configuration'')
   \<and> observed (cancelDownload
         (fst (startDownload sampleEnv (idleProcessor None [sampleItem Queued 0 None])
                   (sampleItem Queued 0 None) [] (exited 0))) ''g'' FinalCancelled None) ''g''
       = Some (Error, 0, None)
   \<and> map_option errorIffFailed (findItem (queue (cancelDownload
         (fst (startDownload sampleEnv (idleProcessor None [sampleItem Queued 0 None])
                   (sampleItem Queued 0 None) [] (exited 0))) ''g'' FinalCancelled None)) ''g'')
       = Some False"
  by (simp add: startDownload_def startBegin_def configuredBaseUri_def idleProcessor_def
      sampleItem_def observed_def findItem_updateItemStatus mergeItem_def statusUpdates_def
      noUpdates_def orKeep_def cancelDownload_def Let_def findItem_queueUpdate cancelUpdates_def
      errorIffFailed_def truthyStr_def updateItemStatus_def emitIf_def queueUpdate_def)

text \<open>
  X3. One direction of the invariant is kept by every operation of the driver: if every
  item with a non-empty error is in \<open>Error\<close> or \<open>InstallError\<close>, this is still so after
  \<open>cancelDownload\<close>, after a whole \<open>startDownload\<close>, after any data events and after the
  process has settled.
\<close>

theorem error_only_on_failed_preserved:
  assumes "errorsOnlyOnFailed st"
  shows "errorsOnlyOnFailed (cancelDownload st n fs msg)
       \<and> errorsOnlyOnFailed (fst (startDownload env st item chunks t))
       \<and> errorsOnlyOnFailed (fst (foldl (deliver n) (st, buf) chunks))
       \<and> errorsOnlyOnFailed (fst (onSettled n st s))"
proof -
  have "errorsOnlyOnFailed (fst (st, buf))" using assms by simp
  then have "errorsOnlyOnFailed (fst (foldl (deliver n) (st, buf) chunks))"
    by (rule eof_foldl_deliver)
  with assms show ?thesis
    by (simp add: eof_cancelDownload eof_startDownload eof_onSettled)
qed

theorem error_only_on_failed_preserved_witness:
  "errorsOnlyOnFailed (downloadingProcessor 0)
   \<and> errorsOnlyOnFailed (cancelDownload (downloadingProcessor 0) ''g'' FinalError (Some authFailedMsg))
   \<and> errorsOnlyOnFailed (fst (foldl (deliver ''g'') (downloadingProcessor 0, [])
        [authLine @ [LF] @ line50 @ [LF]]))
   \<and> errorsOnlyOnFailed (fst (onSettled ''g'' (downloadingProcessor 0) (execaAwait (exited 1))))"
proof -
  have h: "errorsOnlyOnFailed (downloadingProcessor 0)"
    by (simp add: errorsOnlyOnFailed_def errorOnlyWhenFailed_def downloadingProcessor_def
        downloadingItem_def sampleItem_def truthyStr_def)
  note w = error_only_on_failed_preserved [OF h]
  show ?thesis
    by (intro conjI h w [THEN conjunct1] w [THEN conjunct2, THEN conjunct2, THEN conjunct1]
        w [THEN conjunct2, THEN conjunct2, THEN conjunct2])
qed

section \<open>Cancelling without a handle\<close>

text \<open>
  C9, as stated, fails: cancelling an item that has no subprocess handle is not a no-op.
  A queued item without a handle becomes \<open>Cancelled\<close>.
\<close>

theorem cancel_without_handle_changes_item:
  "activeDownloads (idleProcessor None [sampleItem Queued 0 None]) ''g'' = None
   \<and> observed (idleProcessor None [sampleItem Queued 0 None]) ''g'' = Some (Queued, 0, None)
   \<and> observed (cancelDownload (idleProcessor None [sampleItem Queued 0 None]) ''g''
        FinalCancelled None) ''g'' = Some (Cancelled, 0, None)"
  by (simp add: idleProcessor_def sampleItem_def observed_def cancelDownload_def Let_def
      findItem_queueUpdate cancelUpdates_def mergeItem_def noUpdates_def orKeep_def)

text \<open>
  C9 (amended). For every item that has no attached subprocess handle, \<open>cancelDownload\<close>
  sends no termination signal and leaves the handle table and the listeners as they are,
  but it is not a no-op on the item: with the final status \<open>Cancelled\<close> an item that is
  not in \<open>Error\<close> becomes \<open>Cancelled\<close> with progress 0, no error and no pid; with the final
  status \<open>Error\<close> and a message the item becomes \<open>Error\<close> with that message and no pid,
  its progress kept.
\<close>

theorem cancelDownload_without_handle:
  assumes "activeDownloads st n = None"
  shows "activeDownloads (cancelDownload st n fs msg) = activeDownloads st
    \<and> listening (cancelDownload st n fs msg) = listening st
    \<and> signalsOf (effects (cancelDownload st n fs msg)) = signalsOf (effects st)
    \<and> (\<forall>it. findItem (queue st) n = Some it \<and> status it \<noteq> Error \<longrightarrow>
          findItem (queue (cancelDownload st n FinalCancelled msg)) n
            = Some (it\<lparr>status := Cancelled, progress := 0, error := None, pid := None\<rparr>))
    \<and> (\<forall>it m. findItem (queue st) n = Some it \<and> m \<noteq> [] \<longrightarrow>
          findItem (queue (cancelDownload st n FinalError (Some m))) n
            = Some (it\<lparr>status := Error, error := Some m, pid := None\<rparr>))"
proof -
  have frame: "activeDownloads (cancelDownload st n fs msg) = activeDownloads st
    \<and> listening (cancelDownload st n fs msg) = listening st
    \<and> signalsOf (effects (cancelDownload st n fs msg)) = signalsOf (effects st)"
    using assms
    by (cases "findItem (queue st) n") (simp_all add: cancelDownload_def Let_def)
  have c: "findItem (queue (cancelDownload st n FinalCancelled msg)) n
            = Some (it\<lparr>status := Cancelled, progress := 0, error := None, pid := None\<rparr>)"
    if "findItem (queue st) n = Some it" and "status it \<noteq> Error" for it
    using that
    by (simp add: findItem_cancelDownload cancelUpdates_def mergeItem_def noUpdates_def orKeep_def)
  have e: "findItem (queue (cancelDownload st n FinalError (Some m))) n
            = Some (it\<lparr>status := Error, error := Some m, pid := None\<rparr>)"
    if "findItem (queue st) n = Some it" and "m \<noteq> []" for it m
    using that
    by (simp add: findItem_cancelDownload cancelUpdates_def mergeItem_def noUpdates_def orKeep_def
        orElse_def truthyStr_def)
  from frame c e show ?thesis by blast
qed

theorem cancelDownload_without_handle_witness:
  "activeDownloads (idleProcessor None [sampleItem Completed 100 None]) ''g'' = None
   \<and> signalsOf (effects (cancelDownload (idleProcessor None [sampleItem Completed 100 None]) ''g''
        FinalCancelled None)) = []
   \<and> findItem (queue (cancelDownload (idleProcessor None [sampleItem Completed 100 None]) ''g''
        FinalCancelled None)) ''g'' = Some (sampleItem Cancelled 0 None)
   \<and> findItem (queue (cancelDownload (idleProcessor None [sampleItem Completed 100 None]) ''g''
        FinalError (Some authFailedMsg))) ''g'' = Some (sampleItem Error 100 (Some authFailedMsg))"
proof -
  have h: "activeDownloads (idleProcessor None [sampleItem Completed 100 None]) ''g'' = None"
    by (simp add: idleProcessor_def)
  have f: "findItem (queue (idleProcessor None [sampleItem Completed 100 None])) ''g''
             = Some (sampleItem Completed 100 None)"
    by (simp add: idleProcessor_def sampleItem_def)
  have s: "status (sampleItem Completed 100 None) \<noteq> Error" by (simp add: sampleItem_def)
  have m: "authFailedMsg \<noteq> []" by (simp add: authFailedMsg_def)
  have e: "signalsOf (effects (idleProcessor None [sampleItem Completed 100 None])) = []"
    by (simp add: idleProcessor_def)
  note w = cancelDownload_without_handle [OF h]
  have a: "signalsOf (effects (cancelDownload (idleProcessor None [sampleItem Completed 100 None])
        ''g'' FinalCancelled None)) = []"
    using w [of FinalCancelled None] e by simp
  have b: "findItem (queue (cancelDownload (idleProcessor None [sampleItem Completed 100 None]) ''g''
        FinalCancelled None)) ''g'' = Some (sampleItem Cancelled 0 None)"
    using w [of FinalCancelled None] f s by (simp add: sampleItem_def)
  have c: "findItem (queue (cancelDownload (idleProcessor None [sampleItem Completed 100 None]) ''g''
        FinalError (Some authFailedMsg))) ''g'' = Some (sampleItem Error 100 (Some authFailedMsg))"
    using w [of FinalCancelled None] f m by (simp add: sampleItem_def)
  show ?thesis by (intro conjI h a b c)
qed

section \<open>Missing configuration\<close>

text \<open>
  C10. For every item, if the configuration lacks the base URI or the password (absent or
  empty), \<open>startDownload\<close> returns at once with \<open>success\<close> and \<open>startExtraction\<close> false,
  the item is set to \<open>Error\<close> with progress 0 and the missing-configuration message of
  the code, \<open>Missing VRP configuration\<close> (an item that is not in the queue cannot be set),
  no subprocess is spawned and no handle is attached, whatever the subprocess would have
  printed.
\<close>

theorem startDownload_missing_configuration:
  assumes "vrpConfig st = None
           \<or> (\<exists>c. vrpConfig st = Some c \<and> \<not> (truthyStr (baseUri c) \<and> truthyStr (password c)))"
  shows "snd (startDownload env st item chunks t)
           = \<lparr>success = False, startExtraction = False, finalState = None\<rparr>
       \<and> observed (fst (startDownload env st item chunks t)) (releaseName item)
           = map_option (\<lambda>i. (Error, 0, Some ''Missing VRP configuration''))
               (findItem (queue st) (releaseName item))
       \<and> spawnsOf (effects (fst (startDownload env st item chunks t))) = spawnsOf (effects st)
       \<and> activeDownloads (fst (startDownload env st item chunks t)) = activeDownloads st"
proof -
  have "configuredBaseUri (vrpConfig st) = None"
    using assms by (simp add: configuredBaseUri_None_iff)
  then show ?thesis
    by (simp add: startDownload_unconfigured failed_def observed_def
        findItem_updateItemStatus mergeItem_def statusUpdates_def noUpdates_def orKeep_def
        option.map_comp comp_def)
qed

theorem startDownload_missing_configuration_witness:
  "vrpConfig (idleProcessor halfConfigured [sampleItem Queued 0 None]) = halfConfigured
   \<and> halfConfigured = Some \<lparr>baseUri = Some ''https://host/'', password = None\<rparr>
   \<and> snd (startDownload sampleEnv (idleProcessor halfConfigured [sampleItem Queued 0 None])
                   (sampleItem Queued 0 None) [line50] (exited 0))
       = \<lparr>success = False, startExtraction = False, finalState = None\<rparr>
   \<and> observed (fst (startDownload sampleEnv (idleProcessor halfConfigured [sampleItem Queued 0 None])
                   (sampleItem Queued 0 None) [line50] (exited 0))) ''g''
       = Some (Error, 0, Some ''Missing VRP configuration'')
   \<and> spawnsOf (effects (fst (startDownload sampleEnv (idleProcessor halfConfigured [sampleItem Queued 0 None])
                   (sampleItem Queued 0 None) [line50] (exited 0)))) = []"
proof -
  have c: "vrpConfig (idleProcessor halfConfigured [sampleItem Queued 0 None]) = halfConfigured"
    by (simp add: idleProcessor_def)
  have h: "vrpConfig (idleProcessor halfConfigured [sampleItem Queued 0 None]) = None
           \<or> (\<exists>c. vrpConfig (idleProcessor halfConfigured [sampleItem Queued 0 None]) = Some c
                \<and> \<not> (truthyStr (baseUri c) \<and> truthyStr (password c)))"
    by (simp add: idleProcessor_def halfConfigured_def truthyStr_def)
  note w = startDownload_missing_configuration
    [OF h, of sampleEnv "sampleItem Queued 0 None" "[line50]" "exited 0"]
  have r: "snd (startDownload sampleEnv (idleProcessor halfConfigured [sampleItem Queued 0 None])
                   (sampleItem Queued 0 None) [line50] (exited 0))
       = \<lparr>success = False, startExtraction = False, finalState = None\<rparr>"
    using w by (rule conjunct1)
  have o: "observed (fst (startDownload sampleEnv (idleProcessor halfConfigured [sampleItem Queued 0 None])
                   (sampleItem Queued 0 None) [line50] (exited 0))) ''g''
       = Some (Error, 0, Some ''Missing VRP configuration'')"
    using w by (simp add: idleProcessor_def sampleItem_def)
  have e: "spawnsOf (effects (fst (startDownload sampleEnv (idleProcessor halfConfigured [sampleItem Queued 0 None])
                   (sampleItem Queued 0 None) [line50] (exited 0)))) = []"
    using w by (simp add: idleProcessor_def)
  show ?thesis
    by (intro conjI c r o e) (simp add: halfConfigured_def)
qed

end
